theory Spec2Isabelle
  imports Complex_Main
begin

section \<open>Data model\<close>

text \<open>
  The backend keeps its data in a relational store reached through Prisma. The tables
  are modelled as lists of rows in insertion order. JavaScript numbers that hold pounds
  are read as exact rationals (\<open>rat\<close>) in the controllers below; that is what the
  source computes as long as every intermediate value is a double (whole pounds, for
  one). The allocation is modelled a second time with the IEEE doubles of the source
  (\<open>createReserva_ieee\<close>), for the inputs where the rounding of doubles decides the
  outcome. Calendar dates (a \<open>Date\<close> built by
  \<open>parseDateWithoutTimezone\<close>, always noon of a day) are modelled by the number of
  the day (\<open>int\<close>), so that \<open>getTime()\<close> equality is equality of days and
  \<open>gte\<close> is \<open>\<le>\<close>. Record fields carry a short prefix of their table
  (\<open>r_\<close> Reserva, \<open>p_\<close> PeriodoLibras, \<open>hp_\<close> HistoricoPeriodo,
  \<open>hr_\<close> HistoricoReserva), because several tables share field names.
\<close>

type_synonym fecha = int

datatype StatusReserva = PENDIENTE | CONFIRMADA | ENVIADA | ENTREGADA | CANCELADA

datatype Role = ADMIN_PRINCIPAL | USUARIO

record AuthUser =
  u_id :: nat
  u_role :: Role

record Reserva =
  r_id :: nat
  r_libras :: rat
  r_fecha :: fecha
  r_estado :: string
  r_observaciones :: "string option"
  r_status :: StatusReserva
  r_fechaConfirmacion :: "fecha option"
  r_fechaEnvio :: "fecha option"
  r_fechaEntrega :: "fecha option"
  r_userId :: nat
  r_periodoId :: nat

record PeriodoLibras =
  p_id :: nat
  p_librasTotales :: int
  p_fechaEnvio :: fecha
  p_isActive :: bool

record HistoricoPeriodo =
  hp_librasTotales :: int
  hp_librasReservadas :: rat
  hp_librasDisponibles :: rat
  hp_fechaEnvio :: fecha
  hp_totalReservas :: nat
  hp_totalUsuarios :: nat

record HistoricoReserva =
  hr_userId :: nat
  hr_userName :: string
  hr_userEmail :: string
  hr_libras :: rat
  hr_fecha :: fecha
  hr_estado :: string
  hr_observaciones :: "string option"
  hr_status :: StatusReserva
  hr_periodoFechaEnvio :: fecha
  hr_reservaOriginalId :: nat

text \<open>
  The store. \<open>userName\<close> and \<open>userEmail\<close> stand for the join
  \<open>include: { user: true }\<close>: the foreign key of a reservation always resolves, so
  the users table is read as a total function of the user id. \<open>nextReservaId\<close> is
  the autoincrement counter of the reservations table.
\<close>

record store =
  periodos :: "PeriodoLibras list"
  reservas :: "Reserva list"
  historicoPeriodos :: "HistoricoPeriodo list"
  historicoReservas :: "HistoricoReserva list"
  userName :: "nat \<Rightarrow> string"
  userEmail :: "nat \<Rightarrow> string"
  nextReservaId :: nat

datatype error =
    UsuarioNoAutenticado
  | PeriodoNoActivo
  | NoHayPeriodosActivos
  | LibrasInsuficientes rat rat
  | LibrasInsuficientesPeriodo rat rat
  | ReduccionInvalida int rat
  | ReservaNotFound
  | PeriodoNotFound
  | NoPuedeEditarReserva
  | NoPuedeEliminarReserva
  | CannotChangeStatus string
  | StorageFailure

section \<open>Status machine (middlewares/authorization.ts)\<close>

record permiso =
  allowed :: bool
  reason :: "string option"

fun status_name :: "StatusReserva \<Rightarrow> string" where
  "status_name PENDIENTE = ''PENDIENTE''"
| "status_name CONFIRMADA = ''CONFIRMADA''"
| "status_name ENVIADA = ''ENVIADA''"
| "status_name ENTREGADA = ''ENTREGADA''"
| "status_name CANCELADA = ''CANCELADA''"

text \<open>The record \<open>validTransitions\<close> of the source: a status that is no key has no entry.\<close>

fun validTransitions :: "StatusReserva \<Rightarrow> StatusReserva list option" where
  "validTransitions PENDIENTE = Some [CONFIRMADA, CANCELADA]"
| "validTransitions CONFIRMADA = Some [ENVIADA, CANCELADA]"
| "validTransitions ENVIADA = Some [ENTREGADA, CANCELADA]"
| "validTransitions ENTREGADA = None"
| "validTransitions CANCELADA = None"

text \<open>\<open>validTransitions[currentStatus]?.includes(newStatus)\<close>, undefined being falsy.\<close>

definition includes_opt :: "StatusReserva list option \<Rightarrow> StatusReserva \<Rightarrow> bool" where
  "includes_opt l x = (case l of None \<Rightarrow> False | Some xs \<Rightarrow> List.member xs x)"

definition canChangeReservaStatus :: "Role \<Rightarrow> StatusReserva \<Rightarrow> StatusReserva \<Rightarrow> permiso" where
  "canChangeReservaStatus userRole currentStatus newStatus =
    (if currentStatus = ENTREGADA \<or> currentStatus = CANCELADA then
       \<lparr>allowed = False,
        reason = Some ''No se puede modificar una reserva entregada o cancelada''\<rparr>
     else if currentStatus = newStatus then
       \<lparr>allowed = False, reason = Some ''La reserva ya tiene este estado''\<rparr>
     else if userRole = ADMIN_PRINCIPAL then
       (if includes_opt (validTransitions currentStatus) newStatus then
          \<lparr>allowed = True, reason = None\<rparr>
        else
          \<lparr>allowed = False,
           reason = Some (''No se puede cambiar de '' @ status_name currentStatus
                          @ '' a '' @ status_name newStatus)\<rparr>)
     else if userRole = USUARIO then
       (if currentStatus = CONFIRMADA \<and> newStatus = ENVIADA then
          \<lparr>allowed = True, reason = None\<rparr>
        else
          \<lparr>allowed = False,
           reason = Some ''Solo puedes cambiar reservas confirmadas a enviadas''\<rparr>)
     else
       \<lparr>allowed = False, reason = Some ''No tienes permisos para cambiar estados''\<rparr>)"

text \<open>
  The decision table as the specification words it: terminal states reject, a request
  equal to the current status rejects, an administrator follows the adjacency list, any
  other actor may only move CONFIRMADA to ENVIADA.
\<close>

definition spec_adjacency :: "(StatusReserva \<times> StatusReserva) list" where
  "spec_adjacency =
    [(PENDIENTE, CONFIRMADA), (PENDIENTE, CANCELADA),
     (CONFIRMADA, ENVIADA), (CONFIRMADA, CANCELADA),
     (ENVIADA, ENTREGADA), (ENVIADA, CANCELADA)]"

definition spec_status_table :: "Role \<Rightarrow> StatusReserva \<Rightarrow> StatusReserva \<Rightarrow> bool" where
  "spec_status_table role cur new =
    (if cur = ENTREGADA \<or> cur = CANCELADA then False
     else if cur = new then False
     else if role = ADMIN_PRINCIPAL then List.member spec_adjacency (cur, new)
     else cur = CONFIRMADA \<and> new = ENVIADA)"

section \<open>Capacity ledger (controllers/reservaController.ts)\<close>

text \<open>\<open>Math.round(parsed * 100) / 100\<close>: \<open>Math.round\<close> rounds a tie upwards.\<close>

definition parseDecimal :: "rat \<Rightarrow> rat" where
  "parseDecimal v = of_int \<lfloor>v * 100 + 1 / 2\<rfloor> / 100"

text \<open>
  \<open>x.toFixed(2)\<close>: the sign, then the decimal with two fraction digits nearest to
  the absolute value, the larger one on a tie. The model keeps the number that the
  printed digits denote.
\<close>

definition toFixed2 :: "rat \<Rightarrow> rat" where
  "toFixed2 x =
     (if x < 0 then - (of_int \<lfloor>(- x) * 100 + 1 / 2\<rfloor> / 100)
      else of_int \<lfloor>x * 100 + 1 / 2\<rfloor> / 100)"

text \<open>\<open>reservas.reduce((sum, reserva) => sum + parseFloat(reserva.libras.toString()), 0)\<close>\<close>

definition sumLibras :: "Reserva list \<Rightarrow> rat" where
  "sumLibras rs = foldl (\<lambda>sum reserva. sum + r_libras reserva) 0 rs"

definition findPeriodo :: "store \<Rightarrow> nat \<Rightarrow> PeriodoLibras option" where
  "findPeriodo s periodoId = find (\<lambda>p. p_id p = periodoId) (periodos s)"

definition findReserva :: "store \<Rightarrow> nat \<Rightarrow> Reserva option" where
  "findReserva s reservaId = find (\<lambda>r. r_id r = reservaId) (reservas s)"

text \<open>The relation \<open>reservas: { where: { status: { notIn: ['CANCELADA'] } } }\<close> of a period.\<close>

definition reservasNoCanceladas :: "store \<Rightarrow> nat \<Rightarrow> Reserva list" where
  "reservasNoCanceladas s periodoId =
     filter (\<lambda>r. r_periodoId r = periodoId \<and> r_status r \<noteq> CANCELADA) (reservas s)"

text \<open>
  \<open>calcularLibrasDisponibles(periodoId, excludeReservaId?)\<close>. The filter
  \<open>excludeReservaId ? { not: excludeReservaId } : undefined\<close> tests the id for
  truthiness, so an absent id and the id 0 exclude nothing.
\<close>

definition calcularLibrasDisponibles :: "store \<Rightarrow> nat \<Rightarrow> nat option \<Rightarrow> error + rat" where
  "calcularLibrasDisponibles s periodoId excludeReservaId =
     (case findPeriodo s periodoId of
        None \<Rightarrow> Inl PeriodoNotFound
      | Some periodo \<Rightarrow>
          Inr (of_int (p_librasTotales periodo)
               - sumLibras
                   (filter
                      (\<lambda>r. (case excludeReservaId of
                                None \<Rightarrow> True
                              | Some k \<Rightarrow> k = 0 \<or> r_id r \<noteq> k))
                      (reservasNoCanceladas s periodoId))))"

text \<open>
  The safety property of the ledger, as a test on a state: in every period the pounds
  of the reservations that are not cancelled do not exceed \<open>librasTotales\<close>.
\<close>

definition capacidad_ok :: "store \<Rightarrow> bool" where
  "capacidad_ok s =
     list_all
       (\<lambda>p. sumLibras (reservasNoCanceladas s (p_id p)) \<le> of_int (p_librasTotales p))
       (periodos s)"

section \<open>Allocation: createReserva\<close>

record CreateReservaDTO =
  c_libras :: rat
  c_fecha :: fecha
  c_estado :: string
  c_observaciones :: "string option"
  c_periodoId :: "nat option"

record PlanEntry =
  pl_periodo :: PeriodoLibras
  pl_libras :: rat
  pl_fecha :: fecha

text \<open>A period read with \<open>include: { reservas: { where: not cancelled } }\<close>.\<close>

definition conReservas :: "store \<Rightarrow> PeriodoLibras \<Rightarrow> PeriodoLibras \<times> Reserva list" where
  "conReservas s p = (p, reservasNoCanceladas s (p_id p))"

text \<open>
  \<open>findMany({ where: { isActive: true, fechaEnvio: { gte: fechaReserva } },
  orderBy: { fechaEnvio: 'asc' } })\<close>. Periods with the same date keep their order
  in the table; the source leaves the order of such ties to the store.
\<close>

definition findManyActivos :: "store \<Rightarrow> fecha \<Rightarrow> (PeriodoLibras \<times> Reserva list) list" where
  "findManyActivos s fechaReserva =
     map (conReservas s)
       (sort_key p_fechaEnvio
          (filter (\<lambda>p. p_isActive p \<and> fechaReserva \<le> p_fechaEnvio p) (periodos s)))"

text \<open>
  The candidate periods (\<open>periodosActivos\<close>): the chosen active period when
  \<open>periodoId\<close> is truthy, the active periods from the requested date on otherwise.
\<close>

definition buscarPeriodos ::
  "store \<Rightarrow> nat option \<Rightarrow> fecha \<Rightarrow> error + (PeriodoLibras \<times> Reserva list) list" where
  "buscarPeriodos s periodoId fechaReserva =
     (case periodoId of
        None \<Rightarrow> Inr (findManyActivos s fechaReserva)
      | Some pid \<Rightarrow>
          if pid = 0 then Inr (findManyActivos s fechaReserva)
          else (case find (\<lambda>p. p_id p = pid \<and> p_isActive p) (periodos s) of
                  None \<Rightarrow> Inl PeriodoNoActivo
                | Some periodoEspecifico \<Rightarrow> Inr [conReservas s periodoEspecifico]))"

text \<open>
  The planning loop \<open>for (const periodo of periodosActivos)\<close>, with the two variables
  it updates (\<open>librasRestantes\<close>, \<open>planDeReservas\<close>) as accumulators. The two
  nested tests of the source (\<open>librasDisponibles > 0\<close>, then
  \<open>librasParaEstePeriodo >= 0.01\<close>) have no else branch, so they are one conjunction.
\<close>

fun planificar ::
  "fecha \<Rightarrow> (PeriodoLibras \<times> Reserva list) list \<Rightarrow> rat \<Rightarrow> PlanEntry list
     \<Rightarrow> rat \<times> PlanEntry list" where
  "planificar fechaReserva [] librasRestantes planDeReservas =
     (librasRestantes, planDeReservas)"
| "planificar fechaReserva ((periodo, rs) # resto) librasRestantes planDeReservas =
     (if librasRestantes \<le> 0 then (librasRestantes, planDeReservas)
      else
        let librasReservadas = sumLibras rs;
            librasDisponibles = of_int (p_librasTotales periodo) - librasReservadas;
            librasParaEstePeriodo = min librasRestantes librasDisponibles
        in
          if librasDisponibles > 0 \<and> librasParaEstePeriodo \<ge> 1 / 100 then
            planificar fechaReserva resto (librasRestantes - librasParaEstePeriodo)
              (planDeReservas @
                 [\<lparr>pl_periodo = periodo,
                   pl_libras = librasParaEstePeriodo,
                   pl_fecha =
                     (if planDeReservas = [] \<and> fechaReserva = p_fechaEnvio periodo
                      then fechaReserva else p_fechaEnvio periodo)\<rparr>])
          else planificar fechaReserva resto librasRestantes planDeReservas)"

text \<open>Decimal digits of a number, for the template \<open>Parte ${index + 1}\<close>.\<close>

fun string_of_nat :: "nat \<Rightarrow> string" where
  "string_of_nat n =
     (if n < 10 then [''0123456789'' ! n]
      else string_of_nat (n div 10) @ [''0123456789'' ! (n mod 10)])"

declare string_of_nat.simps [simp del]

text \<open>\<open>observaciones || ''\<close> and \<open>observaciones || null\<close>: an empty string is falsy.\<close>

definition obs_or_empty :: "string option \<Rightarrow> string" where
  "obs_or_empty observaciones = (case observaciones of None \<Rightarrow> [] | Some t \<Rightarrow> t)"

definition obs_or_null :: "string option \<Rightarrow> string option" where
  "obs_or_null observaciones =
     (case observaciones of None \<Rightarrow> None | Some t \<Rightarrow> if t = [] then None else Some t)"

text \<open>
  Modelled from the spec: the Prisma schema is not among the sources; a row made by
  \<open>prisma.reserva.create\<close> gets the next id, the status PENDIENTE and no transition
  date, the other fields from \<open>data\<close>.
\<close>

definition nuevaReserva ::
  "nat \<Rightarrow> rat \<Rightarrow> fecha \<Rightarrow> string \<Rightarrow> string option \<Rightarrow> nat \<Rightarrow> nat \<Rightarrow> Reserva" where
  "nuevaReserva newId libras fechaR estado observaciones userId periodoId =
     \<lparr>r_id = newId, r_libras = libras, r_fecha = fechaR, r_estado = estado,
      r_observaciones = observaciones, r_status = PENDIENTE,
      r_fechaConfirmacion = None, r_fechaEnvio = None, r_fechaEntrega = None,
      r_userId = userId, r_periodoId = periodoId\<rparr>"

text \<open>The commit loop \<open>for (const [index, plan] of planDeReservas.entries())\<close>.\<close>

fun crearReservas ::
  "nat \<Rightarrow> string \<Rightarrow> string option \<Rightarrow> nat \<Rightarrow> PlanEntry list \<Rightarrow> Reserva list \<Rightarrow> store
     \<Rightarrow> Reserva list \<times> store" where
  "crearReservas userId estado observaciones index [] reservasCreadas s =
     (reservasCreadas, s)"
| "crearReservas userId estado observaciones index (plan # resto) reservasCreadas s =
     (let reserva =
            nuevaReserva (nextReservaId s) (pl_libras plan) (pl_fecha plan) estado
              (if index = 0 then obs_or_null observaciones
               else Some (''Reserva dividida - Parte '' @ string_of_nat (index + 1)
                          @ ''. '' @ obs_or_empty observaciones))
              userId (p_id (pl_periodo plan))
      in crearReservas userId estado observaciones (index + 1) resto
           (reservasCreadas @ [reserva])
           (s\<lparr>reservas := reservas s @ [reserva],
              nextReservaId := Suc (nextReservaId s)\<rparr>))"

definition createReserva ::
  "AuthUser option \<Rightarrow> CreateReservaDTO \<Rightarrow> store \<Rightarrow> error + (Reserva list \<times> store)" where
  "createReserva user body s =
     (case user of
        None \<Rightarrow> Inl UsuarioNoAutenticado
      | Some u \<Rightarrow>
          let librasDecimal = parseDecimal (c_libras body);
              fechaReserva = c_fecha body
          in
            (case buscarPeriodos s (c_periodoId body) fechaReserva of
               Inl e \<Rightarrow> Inl e
             | Inr periodosActivos \<Rightarrow>
                 if periodosActivos = [] then Inl NoHayPeriodosActivos
                 else
                   (case planificar fechaReserva periodosActivos librasDecimal [] of
                      (librasRestantes, planDeReservas) \<Rightarrow>
                        if librasRestantes > 0 then
                          Inl (LibrasInsuficientes
                                 (toFixed2 (librasDecimal - librasRestantes))
                                 (toFixed2 librasRestantes))
                        else
                          Inr (crearReservas (u_id u) (c_estado body)
                                 (c_observaciones body) 0 planDeReservas [] s))))"

section \<open>Editing, status change and deletion of a reservation\<close>

record UpdateReservaDTO =
  ud_libras :: "rat option"
  ud_estado :: "string option"
  ud_observaciones :: "string option"
  ud_status :: "StatusReserva option"

text \<open>
  \<open>updateData\<close> applied to a row: \<open>libras\<close> when it was given and accepted,
  \<open>estado\<close> when truthy (given and not empty), \<open>observaciones\<close> when not
  undefined, \<open>status\<close> when given.
\<close>

definition applyUpdateData :: "rat option \<Rightarrow> UpdateReservaDTO \<Rightarrow> Reserva \<Rightarrow> Reserva" where
  "applyUpdateData newLibras body r =
     (let r1 = (case newLibras of None \<Rightarrow> r | Some l \<Rightarrow> r\<lparr>r_libras := l\<rparr>);
          r2 = (case ud_estado body of
                  None \<Rightarrow> r1
                | Some e \<Rightarrow> if e = [] then r1 else r1\<lparr>r_estado := e\<rparr>);
          r3 = (case ud_observaciones body of
                  None \<Rightarrow> r2
                | Some ob \<Rightarrow> r2\<lparr>r_observaciones := Some ob\<rparr>)
      in (case ud_status body of None \<Rightarrow> r3 | Some st \<Rightarrow> r3\<lparr>r_status := st\<rparr>))"

text \<open>\<open>prisma.reserva.update({ where: { id }, data })\<close>\<close>

definition updateRow :: "nat \<Rightarrow> (Reserva \<Rightarrow> Reserva) \<Rightarrow> store \<Rightarrow> store" where
  "updateRow reservaId f s =
     s\<lparr>reservas := map (\<lambda>r. if r_id r = reservaId then f r else r) (reservas s)\<rparr>"

text \<open>
  The capacity test of \<open>updateReserva\<close>, run only when \<open>libras\<close> is given: the
  accepted new weight, or the error.
\<close>

definition validarLibras :: "store \<Rightarrow> Reserva \<Rightarrow> rat option \<Rightarrow> error + rat option" where
  "validarLibras s reserva libras =
     (case libras of
        None \<Rightarrow> Inr None
      | Some l \<Rightarrow>
          let librasDecimal = parseDecimal l in
            (case calcularLibrasDisponibles s (r_periodoId reserva) (Some (r_id reserva)) of
               Inl e \<Rightarrow> Inl e
             | Inr librasDisponibles \<Rightarrow>
                 if librasDecimal > librasDisponibles then
                   Inl (LibrasInsuficientesPeriodo librasDecimal (toFixed2 librasDisponibles))
                 else Inr (Some librasDecimal)))"

definition updateReserva ::
  "AuthUser option \<Rightarrow> nat \<Rightarrow> UpdateReservaDTO \<Rightarrow> store \<Rightarrow> error + store" where
  "updateReserva user reservaId body s =
     (case user of
        None \<Rightarrow> Inl UsuarioNoAutenticado
      | Some u \<Rightarrow>
          (case findReserva s reservaId of
             None \<Rightarrow> Inl ReservaNotFound
           | Some reserva \<Rightarrow>
               if u_role u = USUARIO \<and> r_userId reserva \<noteq> u_id u then
                 Inl NoPuedeEditarReserva
               else
                 (case validarLibras s reserva (ud_libras body) of
                    Inl e \<Rightarrow> Inl e
                  | Inr newLibras \<Rightarrow>
                      Inr (updateRow reservaId (applyUpdateData newLibras body) s))))"

text \<open>
  \<open>updateData\<close> of \<open>updateReservaStatus\<close>: the status, and the date of today in the
  field of the destination status.
\<close>

definition stampStatus :: "StatusReserva \<Rightarrow> fecha \<Rightarrow> Reserva \<Rightarrow> Reserva" where
  "stampStatus status fechaActual r =
     (if status = CONFIRMADA then
        r\<lparr>r_status := status, r_fechaConfirmacion := Some fechaActual\<rparr>
      else if status = ENVIADA then
        r\<lparr>r_status := status, r_fechaEnvio := Some fechaActual\<rparr>
      else if status = ENTREGADA then
        r\<lparr>r_status := status, r_fechaEntrega := Some fechaActual\<rparr>
      else r\<lparr>r_status := status\<rparr>)"

text \<open>\<open>canChange.reason || ERROR_MESSAGES.CANNOT_CHANGE_STATUS\<close>\<close>

definition reason_or_default :: "string option \<Rightarrow> string" where
  "reason_or_default m =
     (case m of
        None \<Rightarrow> ''No tienes permiso para cambiar este estado''
      | Some t \<Rightarrow> if t = [] then ''No tienes permiso para cambiar este estado'' else t)"

text \<open>
  \<open>updateReservaStatus\<close>; \<open>fechaActual\<close> is the date of the day of the call
  (\<open>parseDateWithoutTimezone(getTodayDateString())\<close>), \<open>userRole\<close> is
  \<open>req.user!.role\<close>.
\<close>

definition updateReservaStatus ::
  "fecha \<Rightarrow> Role \<Rightarrow> nat \<Rightarrow> StatusReserva \<Rightarrow> store \<Rightarrow> error + store" where
  "updateReservaStatus fechaActual userRole reservaId status s =
     (case findReserva s reservaId of
        None \<Rightarrow> Inl ReservaNotFound
      | Some reserva \<Rightarrow>
          let canChange = canChangeReservaStatus userRole (r_status reserva) status in
            if \<not> allowed canChange then
              Inl (CannotChangeStatus (reason_or_default (reason canChange)))
            else Inr (updateRow reservaId (stampStatus status fechaActual) s))"

text \<open>
  A run of status requests (date of the day, role of the actor, reservation, requested
  status), one after the other; a rejected request leaves the store as it is.
\<close>

fun run_status :: "(fecha \<times> Role \<times> nat \<times> StatusReserva) list \<Rightarrow> store \<Rightarrow> store" where
  "run_status [] s = s"
| "run_status ((fechaActual, userRole, reservaId, status) # ops) s =
     (case updateReservaStatus fechaActual userRole reservaId status s of
        Inl e \<Rightarrow> run_status ops s
      | Inr s' \<Rightarrow> run_status ops s')"

definition deleteReserva :: "AuthUser option \<Rightarrow> nat \<Rightarrow> store \<Rightarrow> error + store" where
  "deleteReserva user reservaId s =
     (case user of
        None \<Rightarrow> Inl UsuarioNoAutenticado
      | Some u \<Rightarrow>
          (case findReserva s reservaId of
             None \<Rightarrow> Inl ReservaNotFound
           | Some reserva \<Rightarrow>
               if u_role u = USUARIO \<and> r_userId reserva \<noteq> u_id u then
                 Inl NoPuedeEliminarReserva
               else Inr (s\<lparr>reservas := filter (\<lambda>r. r_id r \<noteq> reservaId) (reservas s)\<rparr>)))"

section \<open>Periods: updatePeriodo and closePeriodo (controllers/periodoController.ts)\<close>

record UpdatePeriodoDTO =
  up_librasTotales :: "int option"
  up_fechaEnvio :: "fecha option"

text \<open>
  \<open>updatePeriodo\<close>. The guard runs when \<open>librasTotales\<close> is given and smaller than
  the stored total; the write \<open>if (librasTotales) updateData.librasTotales = ...\<close>
  tests truthiness, so 0 is not written.
\<close>

definition updatePeriodo :: "nat \<Rightarrow> UpdatePeriodoDTO \<Rightarrow> store \<Rightarrow> error + store" where
  "updatePeriodo periodoId body s =
     (case findPeriodo s periodoId of
        None \<Rightarrow> Inl PeriodoNotFound
      | Some periodo \<Rightarrow>
          let librasReservadas = sumLibras (reservasNoCanceladas s (p_id periodo)) in
            if (case up_librasTotales body of
                  None \<Rightarrow> False
                | Some lt \<Rightarrow> lt < p_librasTotales periodo \<and> of_int lt < librasReservadas)
            then Inl (ReduccionInvalida (case up_librasTotales body of Some lt \<Rightarrow> lt | None \<Rightarrow> 0)
                        librasReservadas)
            else
              Inr (s\<lparr>periodos :=
                     map (\<lambda>p. if p_id p = periodoId then
                                 (let p1 = (case up_librasTotales body of
                                              None \<Rightarrow> p
                                            | Some lt \<Rightarrow>
                                                if lt = 0 then p else p\<lparr>p_librasTotales := lt\<rparr>)
                                  in (case up_fechaEnvio body of
                                        None \<Rightarrow> p1
                                      | Some f \<Rightarrow> p1\<lparr>p_fechaEnvio := f\<rparr>))
                               else p)
                       (periodos s)\<rparr>))"

text \<open>
  \<open>closePeriodo\<close> issues its writes one after the other, each an awaited call of the
  store that can reject (there is no \<open>$transaction\<close> in the sources). Which call
  rejects, if any, is a parameter: the creation of the HistoricoPeriodo row, the
  creation of the HistoricoReserva row of the reservation at a position of
  \<open>periodo.reservas\<close> (the creations are started together by \<open>Promise.all\<close>, so
  the other rows are written), \<open>deleteMany\<close>, or the update of the period.
\<close>

datatype fault =
    NoFault
  | FailHistoricoPeriodo
  | FailHistoricoReserva nat
  | FailDeleteMany
  | FailUpdatePeriodo

datatype outcome = Ok | Failed error

definition archivar :: "store \<Rightarrow> PeriodoLibras \<Rightarrow> Reserva \<Rightarrow> HistoricoReserva" where
  "archivar s periodo reserva =
     \<lparr>hr_userId = r_userId reserva,
      hr_userName = userName s (r_userId reserva),
      hr_userEmail = userEmail s (r_userId reserva),
      hr_libras = r_libras reserva,
      hr_fecha = r_fecha reserva,
      hr_estado = r_estado reserva,
      hr_observaciones = r_observaciones reserva,
      hr_status = r_status reserva,
      hr_periodoFechaEnvio = p_fechaEnvio periodo,
      hr_reservaOriginalId = r_id reserva\<rparr>"

text \<open>The statistics of the HistoricoPeriodo row.\<close>

definition estadisticas :: "PeriodoLibras \<Rightarrow> Reserva list \<Rightarrow> HistoricoPeriodo" where
  "estadisticas periodo rs =
     (let reservasActivas = filter (\<lambda>r. r_status r \<noteq> CANCELADA) rs;
          librasReservadas = sumLibras reservasActivas;
          librasDisponibles = of_int (p_librasTotales periodo) - librasReservadas;
          usuariosUnicos = length (remdups (map r_userId reservasActivas))
      in \<lparr>hp_librasTotales = p_librasTotales periodo,
           hp_librasReservadas = librasReservadas,
           hp_librasDisponibles = librasDisponibles,
           hp_fechaEnvio = p_fechaEnvio periodo,
           hp_totalReservas = length reservasActivas,
           hp_totalUsuarios = usuariosUnicos\<rparr>)"

text \<open>The rows of \<open>rs\<close> whose creation does not reject.\<close>

definition escritas :: "fault \<Rightarrow> Reserva list \<Rightarrow> Reserva list" where
  "escritas f rs =
     (case f of
        FailHistoricoReserva i \<Rightarrow> take i rs @ drop (Suc i) rs
      | _ \<Rightarrow> rs)"

definition falla_reserva :: "fault \<Rightarrow> Reserva list \<Rightarrow> bool" where
  "falla_reserva f rs = (case f of FailHistoricoReserva i \<Rightarrow> i < length rs | _ \<Rightarrow> False)"

definition closePeriodo :: "fault \<Rightarrow> nat \<Rightarrow> store \<Rightarrow> outcome \<times> store" where
  "closePeriodo f periodoId s =
     (case findPeriodo s periodoId of
        None \<Rightarrow> (Failed PeriodoNotFound, s)
      | Some periodo \<Rightarrow>
          let rs = filter (\<lambda>r. r_periodoId r = periodoId) (reservas s) in
            if f = FailHistoricoPeriodo then (Failed StorageFailure, s)
            else
              let s1 = s\<lparr>historicoPeriodos :=
                            historicoPeriodos s @ [estadisticas periodo rs]\<rparr>;
                  s2 = s1\<lparr>historicoReservas :=
                             historicoReservas s1 @ map (archivar s periodo) (escritas f rs)\<rparr>
              in
                if falla_reserva f rs then (Failed StorageFailure, s2)
                else if f = FailDeleteMany then (Failed StorageFailure, s2)
                else
                  let s3 = s2\<lparr>reservas :=
                                 filter (\<lambda>r. r_periodoId r \<noteq> periodoId) (reservas s2)\<rparr>
                  in
                    if f = FailUpdatePeriodo then (Failed StorageFailure, s3)
                    else
                      (Ok,
                       s3\<lparr>periodos :=
                            map (\<lambda>p. if p_id p = periodoId then p\<lparr>p_isActive := False\<rparr>
                                      else p)
                              (periodos s3)\<rparr>))"

section \<open>The allocation with the numbers of the source: IEEE doubles\<close>

text \<open>
  A JavaScript number is an IEEE 754 double: a sign, a significand of 53 bits and a
  power of two. Every arithmetic operation of the source returns the double nearest to
  the exact result, a tie going to the even significand. \<open>dbl\<close> is that rounding on
  the rationals (subnormal numbers included; no overflow arises at the size of pounds,
  and it is not modelled). \<open>bitlen\<close> is the number of binary digits of an integer.
\<close>

function bitlen :: "int \<Rightarrow> int" where
  "bitlen n = (if n \<le> 0 then 0 else 1 + bitlen (n div 2))"
  by pat_completeness auto
termination
  by (relation "measure nat") auto

declare bitlen.simps [simp del]

definition pow2 :: "int \<Rightarrow> rat" where
  "pow2 e = (if 0 \<le> e then 2 ^ nat e else 1 / 2 ^ nat (- e))"

text \<open>The nearest integer, a tie going to the even one.\<close>

definition redondeo_par :: "rat \<Rightarrow> int" where
  "redondeo_par x =
     (let n = \<lfloor>x\<rfloor>; r = x - of_int n
      in if r < 1 / 2 then n
         else if 1 / 2 < r then n + 1
         else if even n then n else n + 1)"

text \<open>
  For \<open>x\<close> other than 0, \<open>t\<close> is the integer with \<open>2 ^ t \<le> \<bar>x\<bar> < 2 ^ (t + 1)\<close>
  (the quotient of two integers of \<open>b\<close> and \<open>c\<close> binary digits lies between
  \<open>2 ^ (b - c - 1)\<close> and \<open>2 ^ (b - c + 1)\<close>), and the doubles around \<open>x\<close> are the
  multiples of \<open>2 ^ (t - 52)\<close>, of \<open>2 ^ (- 1074)\<close> for a subnormal number.
\<close>

definition dbl :: "rat \<Rightarrow> rat" where
  "dbl x =
     (if x = 0 then 0
      else
        let a = \<bar>x\<bar>;
            k = bitlen (fst (quotient_of a)) - bitlen (snd (quotient_of a));
            t = (if pow2 k \<le> a then k else k - 1);
            e = max (t - 52) (- 1074)
        in sgn x * of_int (redondeo_par (a / pow2 e)) * pow2 e)"

text \<open>
  \<open>parseDecimal\<close> on doubles: the number of the request is the double nearest to its
  decimal text; \<open>parsed * 100\<close> and the division by 100 round; \<open>Math.round\<close> is
  exact.
\<close>

definition parseDecimal_ieee :: "rat \<Rightarrow> rat" where
  "parseDecimal_ieee v = dbl (of_int \<lfloor>dbl (dbl v * 100) + 1 / 2\<rfloor> / 100)"

text \<open>
  The sum of the weights: \<open>parseFloat(reserva.libras.toString())\<close> is the double
  nearest to the stored decimal, and every addition rounds.
\<close>

definition sumLibras_ieee :: "Reserva list \<Rightarrow> rat" where
  "sumLibras_ieee rs = foldl (\<lambda>sum reserva. dbl (sum + dbl (r_libras reserva))) 0 rs"

text \<open>
  The planning loop on doubles: the two subtractions round, \<open>Math.min\<close> and the
  comparisons are exact, and the literal \<open>0.01\<close> is the double nearest to 1/100.
\<close>

fun planificar_ieee ::
  "fecha \<Rightarrow> (PeriodoLibras \<times> Reserva list) list \<Rightarrow> rat \<Rightarrow> PlanEntry list
     \<Rightarrow> rat \<times> PlanEntry list" where
  "planificar_ieee fechaReserva [] librasRestantes planDeReservas =
     (librasRestantes, planDeReservas)"
| "planificar_ieee fechaReserva ((periodo, rs) # resto) librasRestantes planDeReservas =
     (if librasRestantes \<le> 0 then (librasRestantes, planDeReservas)
      else
        let librasReservadas = sumLibras_ieee rs;
            librasDisponibles = dbl (of_int (p_librasTotales periodo) - librasReservadas);
            librasParaEstePeriodo = min librasRestantes librasDisponibles
        in
          if librasDisponibles > 0 \<and> librasParaEstePeriodo \<ge> dbl (1 / 100) then
            planificar_ieee fechaReserva resto (dbl (librasRestantes - librasParaEstePeriodo))
              (planDeReservas @
                 [\<lparr>pl_periodo = periodo,
                   pl_libras = librasParaEstePeriodo,
                   pl_fecha =
                     (if planDeReservas = [] \<and> fechaReserva = p_fechaEnvio periodo
                      then fechaReserva else p_fechaEnvio periodo)\<rparr>])
          else planificar_ieee fechaReserva resto librasRestantes planDeReservas)"

text \<open>\<open>createReserva\<close> on doubles; the search of the periods and the commit loop hold no arithmetic.\<close>

definition createReserva_ieee ::
  "AuthUser option \<Rightarrow> CreateReservaDTO \<Rightarrow> store \<Rightarrow> error + (Reserva list \<times> store)" where
  "createReserva_ieee user body s =
     (case user of
        None \<Rightarrow> Inl UsuarioNoAutenticado
      | Some u \<Rightarrow>
          let librasDecimal = parseDecimal_ieee (c_libras body);
              fechaReserva = c_fecha body
          in
            (case buscarPeriodos s (c_periodoId body) fechaReserva of
               Inl e \<Rightarrow> Inl e
             | Inr periodosActivos \<Rightarrow>
                 if periodosActivos = [] then Inl NoHayPeriodosActivos
                 else
                   (case planificar_ieee fechaReserva periodosActivos librasDecimal [] of
                      (librasRestantes, planDeReservas) \<Rightarrow>
                        if librasRestantes > 0 then
                          Inl (LibrasInsuficientes
                                 (toFixed2 (dbl (librasDecimal - librasRestantes)))
                                 (toFixed2 librasRestantes))
                        else
                          Inr (crearReservas (u_id u) (c_estado body)
                                 (c_observaciones body) 0 planDeReservas [] s))))"

section \<open>Auxiliary notions of the statements\<close>

text \<open>A weight with two decimals: a whole number of hundredths of a pound.\<close>

definition centesimal :: "rat \<Rightarrow> bool" where
  "centesimal x = (of_int \<lfloor>x * 100\<rfloor> = x * 100)"

definition libras_centesimales :: "store \<Rightarrow> bool" where
  "libras_centesimales s = list_all (\<lambda>r. centesimal (r_libras r)) (reservas s)"

text \<open>
  The remaining capacity of a candidate period as the planning loop computes it
  (\<open>librasDisponibles\<close>), and what the candidates can take together: a period over
  its total counts for nothing.
\<close>

definition disponibles :: "PeriodoLibras \<times> Reserva list \<Rightarrow> rat" where
  "disponibles c = of_int (p_librasTotales (fst c)) - sumLibras (snd c)"

definition capacidadRestante :: "(PeriodoLibras \<times> Reserva list) list \<Rightarrow> rat" where
  "capacidadRestante cands = sum_list (map (\<lambda>c. max 0 (disponibles c)) cands)"

text \<open>
  What later status requests cannot undo once a reservation \<open>r1\<close> has reached the
  status \<open>st\<close>: the confirmation date; from ENVIADA on the shipping date too; in a
  terminal status the whole row.
\<close>

definition sellada :: "StatusReserva \<Rightarrow> Reserva \<Rightarrow> Reserva \<Rightarrow> bool" where
  "sellada st r1 r2 \<longleftrightarrow>
     r_status r2 \<noteq> PENDIENTE
     \<and> r_fechaConfirmacion r2 = r_fechaConfirmacion r1
     \<and> (st = CONFIRMADA
        \<or> (r_status r2 \<noteq> CONFIRMADA \<and> r_fechaEnvio r2 = r_fechaEnvio r1
           \<and> (st = ENVIADA
              \<or> (r2 = r1 \<and> (r_status r2 = ENTREGADA \<or> r_status r2 = CANCELADA)))))"

section \<open>Example states\<close>

text \<open>
  Two active periods, stored latest first, and a closed one. Period 1 (100 lb, sent on
  day 10) holds reservations of 40 lb (delivered), 30 lb (pending) and a cancelled one
  of 50 lb, so 30 lb remain; period 2 (80 lb, sent on day 20) holds 30 lb, so 50 lb
  remain.
\<close>

definition ex_periodo1 :: PeriodoLibras where
  "ex_periodo1 = \<lparr>p_id = 1, p_librasTotales = 100, p_fechaEnvio = 10, p_isActive = True\<rparr>"

definition ex_periodo2 :: PeriodoLibras where
  "ex_periodo2 = \<lparr>p_id = 2, p_librasTotales = 80, p_fechaEnvio = 20, p_isActive = True\<rparr>"

definition ex_reserva1 :: Reserva where
  "ex_reserva1 =
     \<lparr>r_id = 1, r_libras = 40, r_fecha = 10, r_estado = ''Puebla'',
      r_observaciones = None, r_status = ENTREGADA,
      r_fechaConfirmacion = Some 2, r_fechaEnvio = Some 3, r_fechaEntrega = Some 4,
      r_userId = 7, r_periodoId = 1\<rparr>"

definition ex_reserva2 :: Reserva where
  "ex_reserva2 =
     \<lparr>r_id = 2, r_libras = 30, r_fecha = 20, r_estado = ''Jalisco'',
      r_observaciones = None, r_status = PENDIENTE,
      r_fechaConfirmacion = None, r_fechaEnvio = None, r_fechaEntrega = None,
      r_userId = 8, r_periodoId = 2\<rparr>"

definition ex_reserva3 :: Reserva where
  "ex_reserva3 =
     \<lparr>r_id = 3, r_libras = 50, r_fecha = 10, r_estado = ''CDMX'',
      r_observaciones = Some ''fragil'', r_status = CANCELADA,
      r_fechaConfirmacion = None, r_fechaEnvio = None, r_fechaEntrega = None,
      r_userId = 9, r_periodoId = 1\<rparr>"

definition ex_reserva4 :: Reserva where
  "ex_reserva4 =
     \<lparr>r_id = 4, r_libras = 30, r_fecha = 10, r_estado = ''Puebla'',
      r_observaciones = None, r_status = PENDIENTE,
      r_fechaConfirmacion = None, r_fechaEnvio = None, r_fechaEntrega = None,
      r_userId = 7, r_periodoId = 1\<rparr>"

definition ex_store :: store where
  "ex_store =
     \<lparr>periodos =
        [ex_periodo2, ex_periodo1,
         \<lparr>p_id = 3, p_librasTotales = 40, p_fechaEnvio = 5, p_isActive = False\<rparr>],
      reservas = [ex_reserva1, ex_reserva2, ex_reserva3, ex_reserva4],
      historicoPeriodos = [],
      historicoReservas = [],
      userName = (\<lambda>i. if i = 7 then ''Ana'' else if i = 8 then ''Luis'' else ''Eva''),
      userEmail = (\<lambda>i. if i = 7 then ''ana@x.mx'' else if i = 8 then ''luis@x.mx''
                         else ''eva@x.mx''),
      nextReservaId = 5\<rparr>"

definition ex_usuario7 :: AuthUser where
  "ex_usuario7 = \<lparr>u_id = 7, u_role = USUARIO\<rparr>"

definition ex_usuario9 :: AuthUser where
  "ex_usuario9 = \<lparr>u_id = 9, u_role = USUARIO\<rparr>"

text \<open>A request for 60 lb on day 10, and one for 100 lb.\<close>

definition ex_pedido60 :: CreateReservaDTO where
  "ex_pedido60 =
     \<lparr>c_libras = 60, c_fecha = 10, c_estado = ''Puebla'', c_observaciones = None,
      c_periodoId = None\<rparr>"

definition ex_pedido100 :: CreateReservaDTO where
  "ex_pedido100 =
     \<lparr>c_libras = 100, c_fecha = 10, c_estado = ''Puebla'', c_observaciones = None,
      c_periodoId = None\<rparr>"

text \<open>
  Three active periods; the first one (10 lb, sent on day 10) is full, the others
  (sent on days 20 and 30) have 50 lb each.
\<close>

definition ex_lleno :: store where
  "ex_lleno =
     \<lparr>periodos =
        [\<lparr>p_id = 1, p_librasTotales = 10, p_fechaEnvio = 10, p_isActive = True\<rparr>,
         \<lparr>p_id = 2, p_librasTotales = 50, p_fechaEnvio = 20, p_isActive = True\<rparr>,
         \<lparr>p_id = 3, p_librasTotales = 50, p_fechaEnvio = 30, p_isActive = True\<rparr>],
      reservas =
        [\<lparr>r_id = 1, r_libras = 10, r_fecha = 10, r_estado = ''Puebla'',
          r_observaciones = None, r_status = PENDIENTE,
          r_fechaConfirmacion = None, r_fechaEnvio = None, r_fechaEntrega = None,
          r_userId = 8, r_periodoId = 1\<rparr>],
      historicoPeriodos = [],
      historicoReservas = [],
      userName = (\<lambda>i. ''Ana''),
      userEmail = (\<lambda>i. ''ana@x.mx''),
      nextReservaId = 2\<rparr>"

text \<open>
  One active period of 50 lb, sent on day 10, that holds a reservation of 49.99 lb: 0.01
  lb remains. A request for 1 lb on day 10.
\<close>

definition ex_umbral :: store where
  "ex_umbral =
     \<lparr>periodos =
        [\<lparr>p_id = 1, p_librasTotales = 50, p_fechaEnvio = 10, p_isActive = True\<rparr>],
      reservas =
        [\<lparr>r_id = 1, r_libras = 4999 / 100, r_fecha = 10, r_estado = ''Puebla'',
          r_observaciones = None, r_status = PENDIENTE,
          r_fechaConfirmacion = None, r_fechaEnvio = None, r_fechaEntrega = None,
          r_userId = 8, r_periodoId = 1\<rparr>],
      historicoPeriodos = [],
      historicoReservas = [],
      userName = (\<lambda>i. ''Ana''),
      userEmail = (\<lambda>i. ''ana@x.mx''),
      nextReservaId = 2\<rparr>"

definition ex_pedido1 :: CreateReservaDTO where
  "ex_pedido1 =
     \<lparr>c_libras = 1, c_fecha = 10, c_estado = ''Puebla'', c_observaciones = None,
      c_periodoId = None\<rparr>"

text \<open>
  One active period of 1 lb that holds reservations of 0.1 lb and 0.2 lb: 0.7 lb
  remains, and the sum of the two weights is not a double.
\<close>

definition ex_decimos :: store where
  "ex_decimos =
     \<lparr>periodos =
        [\<lparr>p_id = 1, p_librasTotales = 1, p_fechaEnvio = 10, p_isActive = True\<rparr>],
      reservas =
        [\<lparr>r_id = 1, r_libras = 1 / 10, r_fecha = 10, r_estado = ''Puebla'',
          r_observaciones = None, r_status = PENDIENTE,
          r_fechaConfirmacion = None, r_fechaEnvio = None, r_fechaEntrega = None,
          r_userId = 8, r_periodoId = 1\<rparr>,
         \<lparr>r_id = 2, r_libras = 2 / 10, r_fecha = 10, r_estado = ''Puebla'',
          r_observaciones = None, r_status = CONFIRMADA,
          r_fechaConfirmacion = Some 3, r_fechaEnvio = None, r_fechaEntrega = None,
          r_userId = 8, r_periodoId = 1\<rparr>],
      historicoPeriodos = [],
      historicoReservas = [],
      userName = (\<lambda>i. ''Ana''),
      userEmail = (\<lambda>i. ''ana@x.mx''),
      nextReservaId = 3\<rparr>"

section \<open>Status machine: the decision table\<close>

text \<open>
  C4. For every actor role, current status and requested status, the decision of
  \<open>canChangeReservaStatus\<close> is the one of the specification's table: terminal
  states and no-op requests are rejected, an administrator is accepted exactly on the
  adjacency list, a standard user exactly on CONFIRMADA to ENVIADA.
\<close>

theorem canChangeReservaStatus_table:
  "allowed (canChangeReservaStatus role cur new) = spec_status_table role cur new"
  by (cases role; cases cur; cases new)
     (simp_all add: canChangeReservaStatus_def spec_status_table_def spec_adjacency_def
        includes_opt_def)

section \<open>Lemmas on weights and on the planning loop\<close>

lemma foldl_libras: "foldl (\<lambda>sum reserva. sum + r_libras reserva) a rs = a + sum_list (map r_libras rs)"
  by (induction rs arbitrary: a) simp_all

lemma sumLibras_sum_list: "sumLibras rs = sum_list (map r_libras rs)"
  by (simp add: sumLibras_def foldl_libras)

lemma planificar_Cons:
  "planificar fr (c # resto) w plan =
     (if w \<le> 0 then (w, plan)
      else if 0 < disponibles c \<and> 1 / 100 \<le> min w (disponibles c) then
        planificar fr resto (w - min w (disponibles c))
          (plan @ [\<lparr>pl_periodo = fst c, pl_libras = min w (disponibles c),
                    pl_fecha = (if plan = [] \<and> fr = p_fechaEnvio (fst c) then fr
                                else p_fechaEnvio (fst c))\<rparr>])
      else planificar fr resto w plan)"
  by (cases c) (simp only: planificar.simps disponibles_def Let_def fst_conv snd_conv)

lemma centesimal_iff: "centesimal x \<longleftrightarrow> (\<exists>k::int. x = of_int k / 100)"
proof
  assume "centesimal x"
  then have "of_int \<lfloor>x * 100\<rfloor> = x * 100" unfolding centesimal_def .
  then have "x = of_int \<lfloor>x * 100\<rfloor> / 100" by (metis nonzero_eq_divide_eq zero_neq_numeral)
  then show "\<exists>k::int. x = of_int k / 100" ..
next
  assume "\<exists>k::int. x = of_int k / 100"
  then obtain k :: int where "x = of_int k / 100" ..
  then show "centesimal x" by (simp add: centesimal_def)
qed

lemma centesimal_of_int: "centesimal (of_int n)"
  unfolding centesimal_iff by (rule exI[of _ "n * 100"]) simp

lemma centesimal_add: "centesimal x \<Longrightarrow> centesimal y \<Longrightarrow> centesimal (x + y)"
proof -
  assume "centesimal x" "centesimal y"
  then obtain k l :: int where "x = of_int k / 100" "y = of_int l / 100"
    by (auto simp: centesimal_iff)
  then have "x + y = of_int (k + l) / 100" by (simp add: add_divide_distrib)
  then show ?thesis unfolding centesimal_iff ..
qed

lemma centesimal_diff: "centesimal x \<Longrightarrow> centesimal y \<Longrightarrow> centesimal (x - y)"
proof -
  assume "centesimal x" "centesimal y"
  then obtain k l :: int where "x = of_int k / 100" "y = of_int l / 100"
    by (auto simp: centesimal_iff)
  then have "x - y = of_int (k - l) / 100" by (simp add: diff_divide_distrib)
  then show ?thesis unfolding centesimal_iff ..
qed

lemma centesimal_sum_list:
  "list_all (\<lambda>r. centesimal (r_libras r)) rs \<Longrightarrow> centesimal (sum_list (map r_libras rs))"
proof (induction rs)
  case Nil
  show ?case using centesimal_of_int[of 0] by simp
next
  case (Cons r rs)
  then show ?case by (simp add: centesimal_add)
qed

lemma centesimal_granular: "centesimal d \<Longrightarrow> d \<le> 0 \<or> 1 / 100 \<le> d"
proof -
  assume "centesimal d"
  then obtain k :: int where k: "d = of_int k / 100" by (auto simp: centesimal_iff)
  have "k \<le> 0 \<or> 1 \<le> k" by linarith
  then show ?thesis
  proof
    assume "k \<le> 0"
    then have "(of_int k :: rat) \<le> 0" by simp
    then show ?thesis by (simp add: k)
  next
    assume "1 \<le> k"
    then have "(1 :: rat) \<le> of_int k" by simp
    then show ?thesis by (simp add: k)
  qed
qed

lemma floor_half: "\<lfloor>(of_int k :: rat) + 1 / 2\<rfloor> = k"
  by linarith

lemma redondeo_centesimal:
  assumes "centesimal x"
  shows "of_int \<lfloor>x * 100 + 1 / 2\<rfloor> / 100 = x"
proof -
  from assms obtain k :: int where k: "x = of_int k / 100" by (auto simp: centesimal_iff)
  have "x * 100 + 1 / 2 = of_int k + 1 / 2" by (simp add: k)
  then have "\<lfloor>x * 100 + 1 / 2\<rfloor> = k" using floor_half by simp
  then show ?thesis by (simp add: k)
qed

lemma parseDecimal_centesimal: "centesimal x \<Longrightarrow> parseDecimal x = x"
  by (simp add: parseDecimal_def redondeo_centesimal)

lemma toFixed2_centesimal: "centesimal x \<Longrightarrow> toFixed2 x = x"
proof -
  assume c: "centesimal x"
  have "centesimal (- x)" using centesimal_diff[OF centesimal_of_int[of 0] c] by simp
  then show ?thesis using c redondeo_centesimal[of x] redondeo_centesimal[of "- x"]
    by (simp add: toFixed2_def)
qed

lemma capacidadRestante_nonneg: "0 \<le> capacidadRestante cands"
  by (induction cands) (simp_all add: capacidadRestante_def)

lemma planificar_shortfall:
  assumes "list_all (\<lambda>c. disponibles c \<le> 0 \<or> 1 / 100 \<le> disponibles c) cands"
    and "capacidadRestante cands < w"
  shows "fst (planificar fr cands w plan) = w - capacidadRestante cands"
  using assms
proof (induction cands arbitrary: w plan)
  case Nil
  then show ?case by (simp add: capacidadRestante_def)
next
  case (Cons c cands)
  let ?d = "disponibles c"
  have cap: "capacidadRestante (c # cands) = max 0 ?d + capacidadRestante cands"
    by (simp add: capacidadRestante_def)
  have pos: "0 < w" using Cons.prems(2) capacidadRestante_nonneg[of "c # cands"] by linarith
  have rest: "list_all (\<lambda>c. disponibles c \<le> 0 \<or> 1 / 100 \<le> disponibles c) cands"
    using Cons.prems(1) by simp
  show ?case
  proof (cases "0 < ?d")
    case True
    have ge: "1 / 100 \<le> ?d" using Cons.prems(1) True by auto
    have lt: "?d < w" using Cons.prems(2) cap True capacidadRestante_nonneg[of cands] by linarith
    have m: "min w ?d = ?d" using lt by simp
    have "capacidadRestante cands < w - ?d" using Cons.prems(2) cap True by simp
    from Cons.IH[OF rest this] show ?thesis
      using pos True ge m cap by (simp add: planificar_Cons del: planificar.simps)
  next
    case False
    have "capacidadRestante cands < w" using Cons.prems(2) cap False by simp
    from Cons.IH[OF rest this] show ?thesis
      using pos False cap by (simp add: planificar_Cons del: planificar.simps)
  qed
qed

lemma list_all_filter: "list_all P xs \<Longrightarrow> list_all P (filter Q xs)"
  by (induction xs) simp_all

lemma disponibles_conReservas_granular:
  assumes "libras_centesimales s"
  shows "disponibles (conReservas s p) \<le> 0 \<or> 1 / 100 \<le> disponibles (conReservas s p)"
proof -
  have "list_all (\<lambda>r. centesimal (r_libras r)) (reservasNoCanceladas s (p_id p))"
    using assms by (simp add: libras_centesimales_def reservasNoCanceladas_def list_all_filter)
  then have "centesimal (sumLibras (reservasNoCanceladas s (p_id p)))"
    by (simp add: sumLibras_sum_list centesimal_sum_list)
  then have "centesimal (disponibles (conReservas s p))"
    by (simp add: disponibles_def conReservas_def centesimal_diff centesimal_of_int)
  then show ?thesis by (rule centesimal_granular)
qed

lemma buscarPeriodos_conReservas:
  assumes "buscarPeriodos s pid f = Inr cands"
  shows "\<exists>ps. cands = map (conReservas s) ps"
  using assms
  by (auto simp: buscarPeriodos_def findManyActivos_def split: option.splits if_splits
      intro: exI[of _ "[x]" for x])

lemma candidatos_granulares:
  assumes "buscarPeriodos s pid f = Inr cands" "libras_centesimales s"
  shows "list_all (\<lambda>c. disponibles c \<le> 0 \<or> 1 / 100 \<le> disponibles c) cands"
proof -
  from assms(1) obtain ps where "cands = map (conReservas s) ps"
    using buscarPeriodos_conReservas by blast
  then show ?thesis
    using disponibles_conReservas_granular[OF assms(2)] by (simp add: list_all_iff)
qed

lemma ex_restante1: "disponibles (conReservas ex_store ex_periodo1) = 30"
  by (simp add: disponibles_def conReservas_def ex_store_def ex_periodo1_def
      reservasNoCanceladas_def sumLibras_def
      ex_reserva1_def ex_reserva2_def ex_reserva3_def ex_reserva4_def)

lemma ex_restante2: "disponibles (conReservas ex_store ex_periodo2) = 50"
  by (simp add: disponibles_def conReservas_def ex_store_def ex_periodo2_def
      reservasNoCanceladas_def sumLibras_def
      ex_reserva1_def ex_reserva2_def ex_reserva3_def ex_reserva4_def)

lemma centesimal_numeral: "centesimal (numeral n)"
  using centesimal_of_int[of "numeral n"] by simp

lemma string_of_nat_2: "string_of_nat (Suc (Suc 0)) = ''2''"
  by (simp add: string_of_nat.simps)

lemma planificar_split:
  assumes d1: "disponibles (P1, rs1) = 30"
    and d2: "disponibles (P2, rs2) = 50"
    and f1: "p_fechaEnvio P1 = d1"
  shows "planificar d1 [(P1, rs1), (P2, rs2)] 60 [] =
           (0, [\<lparr>pl_periodo = P1, pl_libras = 30, pl_fecha = d1\<rparr>,
                \<lparr>pl_periodo = P2, pl_libras = 30, pl_fecha = p_fechaEnvio P2\<rparr>])"
  by (simp add: planificar_Cons d1 d2 f1 del: planificar.simps(2))

lemma ex_activos:
  "filter (\<lambda>p. p_isActive p \<and> 10 \<le> p_fechaEnvio p) (periodos ex_store) = [ex_periodo2, ex_periodo1]"
  by (simp add: ex_store_def ex_periodo1_def ex_periodo2_def)


section \<open>Allocation: shortfall\<close>

text \<open>
  In exact arithmetic the algorithm of \<open>createReserva\<close> does what is asked of it:
  when the rounded weight of a request is more than the candidate periods can take
  together (the sum of their positive remaining capacities), the call fails with the
  error that states that sum and the pounds that are missing, and writes nothing. The
  stored weights have two decimals. This is the behaviour that the doubles of the source
  depart from (next section).
\<close>

lemma createReserva_shortfall_exacto:
  assumes cands: "buscarPeriodos s (c_periodoId body) (c_fecha body) = Inr cands"
    and hay: "cands \<noteq> []"
    and cent: "libras_centesimales s"
    and falta: "capacidadRestante cands < parseDecimal (c_libras body)"
  shows "createReserva (Some u) body s =
           Inl (LibrasInsuficientes
                  (toFixed2 (capacidadRestante cands))
                  (toFixed2 (parseDecimal (c_libras body) - capacidadRestante cands)))"
proof -
  let ?w = "parseDecimal (c_libras body)"
  obtain rest plan where p: "planificar (c_fecha body) cands ?w [] = (rest, plan)"
    by (cases "planificar (c_fecha body) cands ?w []")
  have "fst (planificar (c_fecha body) cands ?w []) = ?w - capacidadRestante cands"
    using planificar_shortfall[OF candidatos_granulares[OF cands cent] falta] .
  then have rest: "rest = ?w - capacidadRestante cands" by (simp add: p)
  then have "0 < rest" using falta by simp
  then show ?thesis
    by (simp add: createReserva_def cands hay p rest Let_def)
qed

section \<open>Allocation: shortfall with the doubles of the source\<close>

text \<open>
  \<open>dbl\<close> on known values: the doubles of 0.1 and of \<open>0.1 + 0.2\<close>
  (0.30000000000000004), the ties above \<open>2 ^ 53\<close> that go to the even significand,
  and a whole number, which is its own double.

  The period of the example has 50 lb and holds 49.99 lb. On doubles the remaining
  capacity \<open>50 - 49.99\<close> is 0.00999999999999801, below the double of the literal
  \<open>0.01\<close>, so the test \<open>librasParaEstePeriodo >= 0.01\<close> fails and the period is
  passed over.
\<close>

lemma dbl_ejemplos:
  "dbl (1 / 10) = 3602879701896397 / 36028797018963968"
  "dbl (dbl (1 / 10) + dbl (2 / 10)) = 1351079888211149 / 4503599627370496"
  "dbl 9007199254740993 = 9007199254740992"
  "dbl 9007199254740995 = 9007199254740996"
  "dbl 50 = 50"
  by code_simp+

lemma ex_umbral_resta:
  "dbl (50 - sumLibras_ieee (reservas ex_umbral)) = 1407374883553 / 140737488355328
   \<and> dbl (1 / 100) = 5764607523034235 / 576460752303423488
   \<and> dbl (50 - sumLibras_ieee (reservas ex_umbral)) < dbl (1 / 100)"
  by code_simp

lemma ex_umbral_error:
  "(case createReserva_ieee (Some ex_usuario7) ex_pedido1 ex_umbral of
      Inl e \<Rightarrow> Some e | Inr creadas \<Rightarrow> None) = Some (LibrasInsuficientes 0 1)"
  by code_simp

text \<open>
  C3. A request for 1 lb cannot be covered by the 0.01 lb that remain. The call creates
  no row, but the error it raises states 0.00 lb as the maximum that can be reserved and
  1.00 lb as missing, where the remaining capacity is 0.01 lb and 0.99 lb are missing.
\<close>

theorem createReserva_ieee_umbral:
  "of_int (p_librasTotales (hd (periodos ex_umbral)))
     - sum_list (map r_libras (reservasNoCanceladas ex_umbral 1)) = 1 / 100
   \<and> createReserva_ieee (Some ex_usuario7) ex_pedido1 ex_umbral
       = Inl (LibrasInsuficientes 0 1)"
proof -
  have "of_int (p_librasTotales (hd (periodos ex_umbral)))
     - sum_list (map r_libras (reservasNoCanceladas ex_umbral 1)) = 1 / 100"
    by (simp add: ex_umbral_def reservasNoCanceladas_def)
  moreover have "createReserva_ieee (Some ex_usuario7) ex_pedido1 ex_umbral
       = Inl (LibrasInsuficientes 0 1)"
    using ex_umbral_error
    by (cases "createReserva_ieee (Some ex_usuario7) ex_pedido1 ex_umbral") simp_all
  ultimately show ?thesis by simp
qed

text \<open>
  Where the noise of the doubles stays under half a cent, \<open>toFixed(2)\<close> hides it: a
  period of 1 lb that holds 0.1 lb and 0.2 lb has 0.7 lb left, the request for 1 lb
  leaves 0.30000000000000004 lb unassigned, and the error states 0.70 and 0.30.
\<close>

lemma ex_decimos_error:
  "(case createReserva_ieee (Some ex_usuario7) ex_pedido1 ex_decimos of
      Inl e \<Rightarrow> Some e | Inr creadas \<Rightarrow> None) = Some (LibrasInsuficientes (7 / 10) (3 / 10))"
  by code_simp

lemma createReserva_ieee_decimos:
  "createReserva_ieee (Some ex_usuario7) ex_pedido1 ex_decimos
     = Inl (LibrasInsuficientes (7 / 10) (3 / 10))"
  using ex_decimos_error
  by (cases "createReserva_ieee (Some ex_usuario7) ex_pedido1 ex_decimos") simp_all


section \<open>Allocation: the split over two periods\<close>

text \<open>
  C7. Let the active periods from day \<open>d1\<close> on be P1, sent on \<open>d1\<close> with 30 lb
  remaining, and P2, sent on \<open>d2 > d1\<close> with 50 lb remaining, in either order of
  storage. A request for 60 lb on \<open>d1\<close> with no chosen period creates exactly two
  reservations: 30 lb in P1 dated \<open>d1\<close>, then 30 lb in P2 dated \<open>d2\<close>.
\<close>

theorem createReserva_split:
  assumes activos:
      "filter (\<lambda>p. p_isActive p \<and> d1 \<le> p_fechaEnvio p) (periodos s) = [P1, P2]
       \<or> filter (\<lambda>p. p_isActive p \<and> d1 \<le> p_fechaEnvio p) (periodos s) = [P2, P1]"
    and fechas: "p_fechaEnvio P1 = d1" "p_fechaEnvio P2 = d2" "d1 < d2"
    and restante1: "disponibles (conReservas s P1) = 30"
    and restante2: "disponibles (conReservas s P2) = 50"
    and pedido: "c_libras body = 60" "c_fecha body = d1" "c_periodoId body = None"
  shows "createReserva (Some u) body s =
           Inr ([nuevaReserva (nextReservaId s) 30 d1 (c_estado body)
                   (obs_or_null (c_observaciones body)) (u_id u) (p_id P1),
                 nuevaReserva (Suc (nextReservaId s)) 30 d2 (c_estado body)
                   (Some (''Reserva dividida - Parte 2. ''
                          @ obs_or_empty (c_observaciones body)))
                   (u_id u) (p_id P2)],
                s\<lparr>reservas := reservas s @
                     [nuevaReserva (nextReservaId s) 30 d1 (c_estado body)
                        (obs_or_null (c_observaciones body)) (u_id u) (p_id P1),
                      nuevaReserva (Suc (nextReservaId s)) 30 d2 (c_estado body)
                        (Some (''Reserva dividida - Parte 2. ''
                               @ obs_or_empty (c_observaciones body)))
                        (u_id u) (p_id P2)],
                   nextReservaId := Suc (Suc (nextReservaId s))\<rparr>)"
proof -
  have orden: "sort_key p_fechaEnvio
                 (filter (\<lambda>p. p_isActive p \<and> d1 \<le> p_fechaEnvio p) (periodos s)) = [P1, P2]"
    using activos fechas by auto
  have cands: "buscarPeriodos s None d1 = Inr [conReservas s P1, conReservas s P2]"
    by (simp add: buscarPeriodos_def findManyActivos_def orden)
  have plan: "planificar d1 [conReservas s P1, conReservas s P2] 60 [] =
                (0, [\<lparr>pl_periodo = P1, pl_libras = 30, pl_fecha = d1\<rparr>,
                     \<lparr>pl_periodo = P2, pl_libras = 30, pl_fecha = d2\<rparr>])"
    using planificar_split[of P1 "reservasNoCanceladas s (p_id P1)" P2
        "reservasNoCanceladas s (p_id P2)" d1] restante1 restante2 fechas(1,2)
    by (simp add: conReservas_def)
  show ?thesis
    by (simp add: createReserva_def cands pedido parseDecimal_centesimal centesimal_numeral plan string_of_nat_2 Let_def)
qed

theorem createReserva_split_witness:
  "(case createReserva (Some ex_usuario7) ex_pedido60 ex_store of
      Inl e \<Rightarrow> False
    | Inr (creadas, s') \<Rightarrow>
        map (\<lambda>r. (r_id r, r_libras r, r_fecha r, r_periodoId r, r_status r, r_userId r)) creadas
          = [(5, 30, 10, 1, PENDIENTE, 7), (6, 30, 20, 2, PENDIENTE, 7)]
        \<and> reservas s' = reservas ex_store @ creadas)"
  using createReserva_split[of 10 ex_store ex_periodo1 ex_periodo2 20 ex_pedido60 ex_usuario7]
    ex_activos ex_restante1 ex_restante2
  by (simp add: ex_periodo1_def ex_periodo2_def ex_pedido60_def ex_usuario7_def nuevaReserva_def
       ex_store_def)

section \<open>Closing a period\<close>

lemma find_map_upd:
  assumes "find (\<lambda>x. key x = k) xs = Some y" "\<And>x. key (g x) = key x"
  shows "find (\<lambda>x. key x = k) (map (\<lambda>x. if key x = k then g x else x) xs) = Some (g y)"
  using assms by (induction xs) (auto split: if_splits)

lemma filter_filter_neg: "filter P (filter (\<lambda>x. \<not> P x) xs) = []"
  by (induction xs) simp_all

lemma ex_findPeriodo1: "findPeriodo ex_store 1 = Some ex_periodo1"
  by (simp add: findPeriodo_def ex_store_def ex_periodo1_def ex_periodo2_def)

lemmas ex_reservas_defs = ex_reserva1_def ex_reserva2_def ex_reserva3_def ex_reserva4_def

lemma ex_usuarios_activos:
  "r_userId ` {r \<in> set (reservas ex_store). r_periodoId r = 1 \<and> r_status r \<noteq> CANCELADA} = {7}"
proof -
  have "{r \<in> set (reservas ex_store). r_periodoId r = 1 \<and> r_status r \<noteq> CANCELADA}
        = set (filter (\<lambda>r. r_periodoId r = 1 \<and> r_status r \<noteq> CANCELADA) (reservas ex_store))"
    by simp
  also have "filter (\<lambda>r. r_periodoId r = 1 \<and> r_status r \<noteq> CANCELADA) (reservas ex_store)
        = [ex_reserva1, ex_reserva4]"
    by (simp add: ex_store_def ex_reservas_defs)
  finally show ?thesis by (simp add: ex_reservas_defs)
qed

text \<open>
  C6. Closing an existing period, when no write fails, appends exactly one
  HistoricoPeriodo row whose \<open>librasReservadas\<close> is the sum R of the weights of the
  period's reservations that are not cancelled, whose \<open>librasDisponibles\<close> is
  \<open>librasTotales - R\<close>, whose \<open>totalReservas\<close> is their number and whose
  \<open>totalUsuarios\<close> is the number of distinct owners among them; it appends one
  HistoricoReserva row for every reservation of the period, cancelled ones included;
  it leaves no live reservation in the period and the other periods' reservations as
  they were; and it sets \<open>isActive\<close> of the period to false.
\<close>

theorem closePeriodo_archiva:
  assumes "findPeriodo s periodoId = Some periodo"
  shows "\<exists>s'. closePeriodo NoFault periodoId s = (Ok, s')
    \<and> historicoPeriodos s' = historicoPeriodos s @
         [\<lparr>hp_librasTotales = p_librasTotales periodo,
           hp_librasReservadas =
             sum_list (map r_libras
               (filter (\<lambda>r. r_periodoId r = periodoId \<and> r_status r \<noteq> CANCELADA) (reservas s))),
           hp_librasDisponibles =
             of_int (p_librasTotales periodo)
             - sum_list (map r_libras
                 (filter (\<lambda>r. r_periodoId r = periodoId \<and> r_status r \<noteq> CANCELADA) (reservas s))),
           hp_fechaEnvio = p_fechaEnvio periodo,
           hp_totalReservas =
             length (filter (\<lambda>r. r_periodoId r = periodoId \<and> r_status r \<noteq> CANCELADA) (reservas s)),
           hp_totalUsuarios =
             card (r_userId ` {r \<in> set (reservas s).
                                 r_periodoId r = periodoId \<and> r_status r \<noteq> CANCELADA})\<rparr>]
    \<and> historicoReservas s' = historicoReservas s @
         map (archivar s periodo) (filter (\<lambda>r. r_periodoId r = periodoId) (reservas s))
    \<and> filter (\<lambda>r. r_periodoId r = periodoId) (reservas s') = []
    \<and> filter (\<lambda>r. r_periodoId r \<noteq> periodoId) (reservas s')
        = filter (\<lambda>r. r_periodoId r \<noteq> periodoId) (reservas s)
    \<and> findPeriodo s' periodoId = Some (periodo\<lparr>p_isActive := False\<rparr>)
    \<and> map p_id (periodos s') = map p_id (periodos s)"
proof -
  have usuarios:
    "length (remdups (map r_userId (filter (\<lambda>r. r_status r \<noteq> CANCELADA)
        (filter (\<lambda>r. r_periodoId r = periodoId) (reservas s)))))
     = card (r_userId ` {r \<in> set (reservas s).
                           r_periodoId r = periodoId \<and> r_status r \<noteq> CANCELADA})"
  proof -
    have "set (map r_userId (filter (\<lambda>r. r_status r \<noteq> CANCELADA)
        (filter (\<lambda>r. r_periodoId r = periodoId) (reservas s))))
        = r_userId ` {r \<in> set (reservas s).
                           r_periodoId r = periodoId \<and> r_status r \<noteq> CANCELADA}"
      by auto
    then show ?thesis by (metis length_remdups_card_conv)
  qed
  have activas: "filter (\<lambda>r. r_status r \<noteq> CANCELADA)
        (filter (\<lambda>r. r_periodoId r = periodoId) (reservas s))
      = filter (\<lambda>r. r_periodoId r = periodoId \<and> r_status r \<noteq> CANCELADA) (reservas s)"
    by (simp add: conj_commute)
  have pf: "find (\<lambda>p. p_id p = periodoId) (periodos s) = Some periodo"
    using assms by (simp add: findPeriodo_def)
  have desactivado:
    "find (\<lambda>p. p_id p = periodoId)
       (map (\<lambda>p. if p_id p = periodoId then p\<lparr>p_isActive := False\<rparr> else p) (periodos s))
     = Some (periodo\<lparr>p_isActive := False\<rparr>)"
    using find_map_upd[OF pf, of "\<lambda>p. p\<lparr>p_isActive := False\<rparr>"] by simp
  have ids: "map p_id (map (\<lambda>p. if p_id p = periodoId then p\<lparr>p_isActive := False\<rparr> else p)
               (periodos s)) = map p_id (periodos s)"
    by (induction "periodos s") (auto simp: comp_def intro: map_cong)
  show ?thesis
    using assms usuarios desactivado ids
    by (simp add: closePeriodo_def Let_def escritas_def falla_reserva_def estadisticas_def
        activas sumLibras_sum_list findPeriodo_def filter_filter_neg)
qed

theorem closePeriodo_archiva_witness:
  "findPeriodo ex_store 1 = Some ex_periodo1
   \<and> fst (closePeriodo NoFault 1 ex_store) = Ok
   \<and> historicoPeriodos (snd (closePeriodo NoFault 1 ex_store)) =
       [\<lparr>hp_librasTotales = 100, hp_librasReservadas = 70, hp_librasDisponibles = 30,
         hp_fechaEnvio = 10, hp_totalReservas = 2, hp_totalUsuarios = 1\<rparr>]
   \<and> map (\<lambda>h. (hr_reservaOriginalId h, hr_status h, hr_libras h, hr_userName h))
        (historicoReservas (snd (closePeriodo NoFault 1 ex_store))) =
       [(1, ENTREGADA, 40, ''Ana''), (3, CANCELADA, 50, ''Eva''), (4, PENDIENTE, 30, ''Ana'')]
   \<and> reservas (snd (closePeriodo NoFault 1 ex_store)) = [ex_reserva2]
   \<and> findPeriodo (snd (closePeriodo NoFault 1 ex_store)) 1
       = Some (ex_periodo1\<lparr>p_isActive := False\<rparr>)"
proof -
  from closePeriodo_archiva[OF ex_findPeriodo1]
  obtain s' where c: "closePeriodo NoFault 1 ex_store = (Ok, s')"
    and hp: "historicoPeriodos s' = historicoPeriodos ex_store @
         [\<lparr>hp_librasTotales = p_librasTotales ex_periodo1,
           hp_librasReservadas =
             sum_list (map r_libras
               (filter (\<lambda>r. r_periodoId r = 1 \<and> r_status r \<noteq> CANCELADA) (reservas ex_store))),
           hp_librasDisponibles =
             of_int (p_librasTotales ex_periodo1)
             - sum_list (map r_libras
                 (filter (\<lambda>r. r_periodoId r = 1 \<and> r_status r \<noteq> CANCELADA) (reservas ex_store))),
           hp_fechaEnvio = p_fechaEnvio ex_periodo1,
           hp_totalReservas =
             length (filter (\<lambda>r. r_periodoId r = 1 \<and> r_status r \<noteq> CANCELADA) (reservas ex_store)),
           hp_totalUsuarios =
             card (r_userId ` {r \<in> set (reservas ex_store).
                                 r_periodoId r = 1 \<and> r_status r \<noteq> CANCELADA})\<rparr>]"
    and hr: "historicoReservas s' = historicoReservas ex_store @
         map (archivar ex_store ex_periodo1) (filter (\<lambda>r. r_periodoId r = 1) (reservas ex_store))"
    and vacio: "filter (\<lambda>r. r_periodoId r = 1) (reservas s') = []"
    and otras: "filter (\<lambda>r. r_periodoId r \<noteq> 1) (reservas s')
        = filter (\<lambda>r. r_periodoId r \<noteq> 1) (reservas ex_store)"
    and per: "findPeriodo s' 1 = Some (ex_periodo1\<lparr>p_isActive := False\<rparr>)"
    by blast
  have "reservas s' = filter (\<lambda>r. r_periodoId r \<noteq> 1) (reservas s')"
    using vacio by (simp add: filter_empty_conv)
  then have r: "reservas s' = [ex_reserva2]"
    using otras by (simp add: ex_store_def ex_reservas_defs)
  have hp': "historicoPeriodos s' =
       [\<lparr>hp_librasTotales = 100, hp_librasReservadas = 70, hp_librasDisponibles = 30,
         hp_fechaEnvio = 10, hp_totalReservas = 2, hp_totalUsuarios = 1\<rparr>]"
    unfolding hp ex_usuarios_activos by (simp add: ex_store_def ex_reservas_defs ex_periodo1_def)
  have hr': "map (\<lambda>h. (hr_reservaOriginalId h, hr_status h, hr_libras h, hr_userName h))
        (historicoReservas s') =
       [(1, ENTREGADA, 40, ''Ana''), (3, CANCELADA, 50, ''Eva''), (4, PENDIENTE, 30, ''Ana'')]"
    unfolding hr by (simp add: ex_store_def ex_reservas_defs archivar_def)
  show ?thesis
    using ex_findPeriodo1 c r hp' hr' per by simp
qed


text \<open>
  C2, as the specification states it, does not hold: \<open>closePeriodo\<close> runs its writes
  one by one outside any transaction. When \<open>deleteMany\<close> rejects, the call fails, but
  the HistoricoPeriodo row and the three HistoricoReserva rows stay written while the
  live reservations and the period are as before: the state is not the one before the
  attempt.
\<close>

theorem closePeriodo_not_atomic:
  "fst (closePeriodo FailDeleteMany 1 ex_store) = Failed StorageFailure
   \<and> snd (closePeriodo FailDeleteMany 1 ex_store) \<noteq> ex_store
   \<and> length (historicoPeriodos (snd (closePeriodo FailDeleteMany 1 ex_store))) = 1
   \<and> length (historicoReservas (snd (closePeriodo FailDeleteMany 1 ex_store))) = 3
   \<and> historicoPeriodos ex_store = []
   \<and> historicoReservas ex_store = []
   \<and> reservas (snd (closePeriodo FailDeleteMany 1 ex_store)) = reservas ex_store
   \<and> periodos (snd (closePeriodo FailDeleteMany 1 ex_store)) = periodos ex_store"
proof -
  have c: "closePeriodo FailDeleteMany 1 ex_store =
      (Failed StorageFailure,
       ex_store\<lparr>historicoPeriodos :=
                   [estadisticas ex_periodo1 [ex_reserva1, ex_reserva3, ex_reserva4]],
                 historicoReservas :=
                   map (archivar ex_store ex_periodo1) [ex_reserva1, ex_reserva3, ex_reserva4]\<rparr>)"
    using ex_findPeriodo1
    by (simp add: closePeriodo_def Let_def escritas_def falla_reserva_def)
       (simp add: ex_store_def ex_reservas_defs)
  have "historicoPeriodos (snd (closePeriodo FailDeleteMany 1 ex_store)) \<noteq> historicoPeriodos ex_store"
    unfolding c by (simp add: ex_store_def)
  then have "snd (closePeriodo FailDeleteMany 1 ex_store) \<noteq> ex_store" by auto
  then show ?thesis unfolding c by (simp add: ex_store_def)
qed


text \<open>
  C2, amended. \<open>closePeriodo\<close> makes its four writes one after the other with no
  transaction; when a write fails the call fails, the writes before it stay and the
  later ones are not made. For an existing period, with \<open>s1\<close> the state after the
  HistoricoPeriodo row, \<open>s2\<close> after the HistoricoReserva rows and \<open>s3\<close> after the
  deletion: a failure of the first write leaves the state as it was; a failure of the
  HistoricoReserva row of one reservation leaves \<open>s1\<close> with the rows of the other
  reservations; a failure of \<open>deleteMany\<close> leaves \<open>s2\<close>, the whole history written
  and the live reservations in place; a failure of the last update leaves \<open>s3\<close>, the
  live reservations deleted and the period still active. The call succeeds exactly when
  no write fails. So after a failed attempt the state is the one before exactly when the
  first write failed; the live reservations are touched only when the whole history is
  written, and the period only when every step succeeded.
\<close>

theorem closePeriodo_parcial:
  assumes per: "findPeriodo s periodoId = Some periodo"
    and rs: "rs = filter (\<lambda>r. r_periodoId r = periodoId) (reservas s)"
    and s1: "s1 = s\<lparr>historicoPeriodos := historicoPeriodos s @ [estadisticas periodo rs]\<rparr>"
    and s2: "s2 = s1\<lparr>historicoReservas := historicoReservas s @ map (archivar s periodo) rs\<rparr>"
    and s3: "s3 = s2\<lparr>reservas := filter (\<lambda>r. r_periodoId r \<noteq> periodoId) (reservas s)\<rparr>"
  shows "closePeriodo FailHistoricoPeriodo periodoId s = (Failed StorageFailure, s)
    \<and> (\<forall>i < length rs.
          closePeriodo (FailHistoricoReserva i) periodoId s =
            (Failed StorageFailure,
             s1\<lparr>historicoReservas :=
                   historicoReservas s @ map (archivar s periodo) (take i rs @ drop (Suc i) rs)\<rparr>))
    \<and> closePeriodo FailDeleteMany periodoId s = (Failed StorageFailure, s2)
    \<and> closePeriodo FailUpdatePeriodo periodoId s = (Failed StorageFailure, s3)
    \<and> (\<forall>f. fst (closePeriodo f periodoId s) = Ok \<longleftrightarrow>
             f = NoFault \<or> (\<exists>i. f = FailHistoricoReserva i \<and> length rs \<le> i))
    \<and> (\<forall>f. fst (closePeriodo f periodoId s) = Ok \<longrightarrow>
             snd (closePeriodo f periodoId s) =
               s3\<lparr>periodos := map (\<lambda>p. if p_id p = periodoId then p\<lparr>p_isActive := False\<rparr>
                                         else p) (periodos s)\<rparr>)
    \<and> (\<forall>f. fst (closePeriodo f periodoId s) \<noteq> Ok \<longrightarrow>
             (snd (closePeriodo f periodoId s) = s \<longleftrightarrow> f = FailHistoricoPeriodo))
    \<and> (\<forall>f. reservas (snd (closePeriodo f periodoId s)) \<noteq> reservas s \<longrightarrow>
             historicoPeriodos (snd (closePeriodo f periodoId s)) = historicoPeriodos s2
             \<and> historicoReservas (snd (closePeriodo f periodoId s)) = historicoReservas s2)
    \<and> (\<forall>f. periodos (snd (closePeriodo f periodoId s)) \<noteq> periodos s \<longrightarrow>
             fst (closePeriodo f periodoId s) = Ok
             \<and> reservas (snd (closePeriodo f periodoId s)) = reservas s3)"
proof -
  have hp: "closePeriodo FailHistoricoPeriodo periodoId s = (Failed StorageFailure, s)"
    using per by (simp add: closePeriodo_def)
  have hr: "closePeriodo (FailHistoricoReserva i) periodoId s =
            (Failed StorageFailure,
             s1\<lparr>historicoReservas :=
                   historicoReservas s @ map (archivar s periodo) (take i rs @ drop (Suc i) rs)\<rparr>)"
    if "i < length rs" for i
    using per that by (simp add: closePeriodo_def Let_def escritas_def falla_reserva_def rs s1)
  have dm: "closePeriodo FailDeleteMany periodoId s = (Failed StorageFailure, s2)"
    using per by (simp add: closePeriodo_def Let_def escritas_def falla_reserva_def rs s1 s2)
  have up: "closePeriodo FailUpdatePeriodo periodoId s = (Failed StorageFailure, s3)"
    using per by (simp add: closePeriodo_def Let_def escritas_def falla_reserva_def rs s1 s2 s3)
  have okk: "closePeriodo f periodoId s =
      (Ok, s3\<lparr>periodos := map (\<lambda>p. if p_id p = periodoId then p\<lparr>p_isActive := False\<rparr> else p)
                              (periodos s)\<rparr>)"
    if "f = NoFault \<or> (\<exists>i. f = FailHistoricoReserva i \<and> length rs \<le> i)" for f
    using per that
    by (auto simp: closePeriodo_def Let_def escritas_def falla_reserva_def rs s1 s2 s3)
  have cases: "f = FailHistoricoPeriodo \<or> (\<exists>i. f = FailHistoricoReserva i \<and> i < length rs)
      \<or> f = FailDeleteMany \<or> f = FailUpdatePeriodo
      \<or> (f = NoFault \<or> (\<exists>i. f = FailHistoricoReserva i \<and> length rs \<le> i))" for f
    by (cases f) (auto simp: not_less)
  have d1: "historicoPeriodos s1 \<noteq> historicoPeriodos s" by (simp add: s1)
  have ne1: "s1\<lparr>historicoReservas := h\<rparr> \<noteq> s" for h
  proof
    assume "s1\<lparr>historicoReservas := h\<rparr> = s"
    then have "historicoPeriodos (s1\<lparr>historicoReservas := h\<rparr>) = historicoPeriodos s" by simp
    then show False using d1 by simp
  qed
  have ne2: "s2 \<noteq> s" using ne1 by (simp add: s2)
  have ne3: "s3 \<noteq> s"
  proof
    assume "s3 = s"
    then have "historicoPeriodos s3 = historicoPeriodos s" by simp
    then show False using d1 by (simp add: s3 s2)
  qed
  have c5: "fst (closePeriodo f periodoId s) = Ok \<longleftrightarrow>
             f = NoFault \<or> (\<exists>i. f = FailHistoricoReserva i \<and> length rs \<le> i)" for f
    using cases[of f] hp hr dm up okk[of f] by auto
  have c6: "snd (closePeriodo f periodoId s) = s \<longleftrightarrow> f = FailHistoricoPeriodo"
    if "fst (closePeriodo f periodoId s) \<noteq> Ok" for f
    using cases[of f] that hp hr dm up okk[of f] ne1 ne2 ne3 by auto
  have c7: "historicoPeriodos (snd (closePeriodo f periodoId s)) = historicoPeriodos s2
             \<and> historicoReservas (snd (closePeriodo f periodoId s)) = historicoReservas s2"
    if "reservas (snd (closePeriodo f periodoId s)) \<noteq> reservas s" for f
    using cases[of f] that hp hr dm up okk[of f] by (auto simp: s1 s2 s3)
  have c8: "fst (closePeriodo f periodoId s) = Ok
             \<and> reservas (snd (closePeriodo f periodoId s)) = reservas s3"
    if "periodos (snd (closePeriodo f periodoId s)) \<noteq> periodos s" for f
    using cases[of f] that hp hr dm up okk[of f] by (auto simp: s1 s2 s3)
  have c5': "snd (closePeriodo f periodoId s) =
               s3\<lparr>periodos := map (\<lambda>p. if p_id p = periodoId then p\<lparr>p_isActive := False\<rparr>
                                         else p) (periodos s)\<rparr>"
    if "fst (closePeriodo f periodoId s) = Ok" for f
    using that c5[of f] okk[of f] by simp
  show ?thesis
    using hp hr dm up c5 c5' c6 c7 c8 by blast
qed

theorem closePeriodo_parcial_witness:
  "closePeriodo FailDeleteMany 1 ex_store =
     (Failed StorageFailure,
      ex_store\<lparr>historicoPeriodos :=
                  [estadisticas ex_periodo1 [ex_reserva1, ex_reserva3, ex_reserva4]],
                historicoReservas :=
                  map (archivar ex_store ex_periodo1) [ex_reserva1, ex_reserva3, ex_reserva4]\<rparr>)
   \<and> closePeriodo (FailHistoricoReserva 1) 1 ex_store =
     (Failed StorageFailure,
      ex_store\<lparr>historicoPeriodos :=
                  [estadisticas ex_periodo1 [ex_reserva1, ex_reserva3, ex_reserva4]],
                historicoReservas :=
                  map (archivar ex_store ex_periodo1) [ex_reserva1, ex_reserva4]\<rparr>)
   \<and> closePeriodo FailUpdatePeriodo 1 ex_store =
     (Failed StorageFailure,
      ex_store\<lparr>historicoPeriodos :=
                  [estadisticas ex_periodo1 [ex_reserva1, ex_reserva3, ex_reserva4]],
                historicoReservas :=
                  map (archivar ex_store ex_periodo1) [ex_reserva1, ex_reserva3, ex_reserva4],
                reservas := [ex_reserva2]\<rparr>)
   \<and> closePeriodo FailHistoricoPeriodo 1 ex_store = (Failed StorageFailure, ex_store)
   \<and> snd (closePeriodo FailDeleteMany 1 ex_store) \<noteq> ex_store"
proof -
  have rs: "filter (\<lambda>r. r_periodoId r = 1) (reservas ex_store)
              = [ex_reserva1, ex_reserva3, ex_reserva4]"
    and otras: "filter (\<lambda>r. r_periodoId r \<noteq> 1) (reservas ex_store) = [ex_reserva2]"
    and vacios: "historicoPeriodos ex_store = []" "historicoReservas ex_store = []"
    by (simp_all add: ex_store_def ex_reservas_defs)
  note th = closePeriodo_parcial[OF ex_findPeriodo1 refl refl refl refl, unfolded rs otras vacios]
  have a: "closePeriodo FailDeleteMany 1 ex_store =
     (Failed StorageFailure,
      ex_store\<lparr>historicoPeriodos :=
                  [estadisticas ex_periodo1 [ex_reserva1, ex_reserva3, ex_reserva4]],
                historicoReservas :=
                  map (archivar ex_store ex_periodo1) [ex_reserva1, ex_reserva3, ex_reserva4]\<rparr>)"
    using th by simp
  have b: "closePeriodo (FailHistoricoReserva 1) 1 ex_store =
     (Failed StorageFailure,
      ex_store\<lparr>historicoPeriodos :=
                  [estadisticas ex_periodo1 [ex_reserva1, ex_reserva3, ex_reserva4]],
                historicoReservas :=
                  map (archivar ex_store ex_periodo1) [ex_reserva1, ex_reserva4]\<rparr>)"
  proof -
    have "(1::nat) < length [ex_reserva1, ex_reserva3, ex_reserva4]" by simp
    with th have "closePeriodo (FailHistoricoReserva 1) 1 ex_store =
            (Failed StorageFailure,
             ex_store\<lparr>historicoPeriodos := [] @
                 [estadisticas ex_periodo1 [ex_reserva1, ex_reserva3, ex_reserva4]],
               historicoReservas :=
                   [] @ map (archivar ex_store ex_periodo1)
                     (take 1 [ex_reserva1, ex_reserva3, ex_reserva4]
                      @ drop (Suc 1) [ex_reserva1, ex_reserva3, ex_reserva4])\<rparr>)"
      by blast
    then show ?thesis by simp
  qed
  have c: "closePeriodo FailUpdatePeriodo 1 ex_store =
     (Failed StorageFailure,
      ex_store\<lparr>historicoPeriodos :=
                  [estadisticas ex_periodo1 [ex_reserva1, ex_reserva3, ex_reserva4]],
                historicoReservas :=
                  map (archivar ex_store ex_periodo1) [ex_reserva1, ex_reserva3, ex_reserva4],
                reservas := [ex_reserva2]\<rparr>)"
    using th by simp
  have d: "closePeriodo FailHistoricoPeriodo 1 ex_store = (Failed StorageFailure, ex_store)"
    using th by simp
  have "fst (closePeriodo FailDeleteMany 1 ex_store) \<noteq> Ok" unfolding a by simp
  with th have e: "snd (closePeriodo FailDeleteMany 1 ex_store) \<noteq> ex_store" by blast
  show ?thesis using a b c d e by simp
qed


section \<open>Deleting a reservation\<close>

lemma find_Some_mem: "find P xs = Some x \<Longrightarrow> x \<in> set xs \<and> P x"
  by (induction xs) (auto split: if_splits)

lemma filter_id_remove1:
  assumes "distinct (map r_id xs)" "r \<in> set xs"
  shows "filter (\<lambda>x. r_id x \<noteq> r_id r) xs = remove1 r xs"
  using assms
proof (induction xs)
  case Nil
  then show ?case by simp
next
  case (Cons x xs)
  show ?case
  proof (cases "x = r")
    case True
    have "r_id r \<notin> r_id ` set xs" using Cons.prems(1) True by simp
    then have "\<forall>y \<in> set xs. r_id y \<noteq> r_id r" by (metis imageI)
    then have "filter (\<lambda>x. r_id x \<noteq> r_id r) xs = xs" by (simp add: filter_id_conv)
    then show ?thesis using True by simp
  next
    case False
    then have mem: "r \<in> set xs" using Cons.prems(2) by simp
    have "r_id x \<notin> r_id ` set xs" using Cons.prems(1) by simp
    then have neq: "r_id x \<noteq> r_id r" using mem by (metis imageI)
    have "distinct (map r_id xs)" using Cons.prems(1) by simp
    from Cons.IH[OF this mem] have "filter (\<lambda>x. r_id x \<noteq> r_id r) xs = remove1 r xs" .
    then show ?thesis using False neq by auto
  qed
qed

lemma find_filter_neq_None: "find (\<lambda>x. key x = k) (filter (\<lambda>x. key x \<noteq> k) xs) = None"
  by (induction xs) simp_all

lemma ex_findReserva1: "findReserva ex_store 1 = Some ex_reserva1"
  by (simp add: findReserva_def ex_store_def ex_reservas_defs)

text \<open>
  C10. \<open>deleteReserva\<close>, called by an administrator or by the owner on an existing
  reservation, succeeds whatever the status of the reservation (no hypothesis on it:
  ENTREGADA and CANCELADA included) and removes exactly that row; no status or capacity
  test is made. When the reservation was not cancelled, the remaining capacity of its
  period grows by the weight of the reservation. Ids are unique (the primary key) and
  weights are positive (the validators).
\<close>

theorem deleteReserva_any_status:
  assumes found: "findReserva s reservaId = Some r"
    and actor: "u_role u = ADMIN_PRINCIPAL \<or> r_userId r = u_id u"
    and ids: "distinct (map r_id (reservas s))"
    and peso: "0 < r_libras r"
  shows "\<exists>s'. deleteReserva (Some u) reservaId s = Inr s'
    \<and> findReserva s' reservaId = None
    \<and> reservas s' = remove1 r (reservas s)
    \<and> periodos s' = periodos s
    \<and> (r_status r \<noteq> CANCELADA \<longrightarrow>
         (\<forall>a. calcularLibrasDisponibles s (r_periodoId r) None = Inr a \<longrightarrow>
              calcularLibrasDisponibles s' (r_periodoId r) None = Inr (a + r_libras r)
              \<and> a < a + r_libras r))"
proof -
  let ?s' = "s\<lparr>reservas := filter (\<lambda>x. r_id x \<noteq> reservaId) (reservas s)\<rparr>"
  from found have mem: "r \<in> set (reservas s)" and rid: "r_id r = reservaId"
    using find_Some_mem[of "\<lambda>x. r_id x = reservaId" "reservas s" r]
    by (simp_all add: findReserva_def)
  have del: "deleteReserva (Some u) reservaId s = Inr ?s'"
    using found actor by (cases "u_role u") (auto simp: deleteReserva_def)
  have rem: "reservas ?s' = remove1 r (reservas s)"
    using filter_id_remove1[OF ids mem] rid by simp
  have gone: "findReserva ?s' reservaId = None"
    by (simp add: findReserva_def find_filter_neq_None)
  have cap: "calcularLibrasDisponibles ?s' (r_periodoId r) None = Inr (a + r_libras r)"
    if act: "r_status r \<noteq> CANCELADA"
      and a: "calcularLibrasDisponibles s (r_periodoId r) None = Inr a" for a
  proof -
    let ?Q = "\<lambda>x. r_periodoId x = r_periodoId r \<and> r_status x \<noteq> CANCELADA"
    from a obtain periodo where p: "findPeriodo s (r_periodoId r) = Some periodo"
      and av: "a = of_int (p_librasTotales periodo) - sumLibras (filter ?Q (reservas s))"
      by (auto simp: calcularLibrasDisponibles_def reservasNoCanceladas_def split: option.splits)
    have inQ: "r \<in> set (filter ?Q (reservas s))" using mem act by simp
    have "filter ?Q (reservas ?s') = remove1 r (filter ?Q (reservas s))"
      using rem by (simp add: filter_remove1)
    then have "sumLibras (filter ?Q (reservas ?s')) = sumLibras (filter ?Q (reservas s)) - r_libras r"
      using sum_list_map_remove1[OF inQ, of r_libras] by (simp add: sumLibras_sum_list)
    then show ?thesis
      using p av by (simp add: calcularLibrasDisponibles_def reservasNoCanceladas_def findPeriodo_def)
  qed
  show ?thesis
    using del rem gone cap peso by (intro exI[of _ ?s']) simp
qed

theorem deleteReserva_any_status_witness:
  "r_status ex_reserva1 = ENTREGADA
   \<and> calcularLibrasDisponibles ex_store 1 None = Inr 30
   \<and> (case deleteReserva (Some ex_usuario7) 1 ex_store of
        Inl e \<Rightarrow> False
      | Inr s' \<Rightarrow> reservas s' = [ex_reserva2, ex_reserva3, ex_reserva4]
                  \<and> calcularLibrasDisponibles s' 1 None = Inr 70)"
proof -
  have a: "calcularLibrasDisponibles ex_store 1 None = Inr 30"
    by (simp add: calcularLibrasDisponibles_def findPeriodo_def reservasNoCanceladas_def
        sumLibras_def ex_store_def ex_reservas_defs ex_periodo1_def ex_periodo2_def)
  have st: "r_status ex_reserva1 = ENTREGADA" "r_periodoId ex_reserva1 = 1" "r_libras ex_reserva1 = 40"
    by (simp_all add: ex_reserva1_def)
  have d: "distinct (map r_id (reservas ex_store))"
    by (simp add: ex_store_def ex_reservas_defs)
  have actor: "u_role ex_usuario7 = ADMIN_PRINCIPAL \<or> r_userId ex_reserva1 = u_id ex_usuario7"
    by (simp add: ex_usuario7_def ex_reserva1_def)
  have peso: "0 < r_libras ex_reserva1" by (simp add: ex_reserva1_def)
  from deleteReserva_any_status[OF ex_findReserva1 actor d peso]
  obtain s' where "deleteReserva (Some ex_usuario7) 1 ex_store = Inr s'"
    and "reservas s' = remove1 ex_reserva1 (reservas ex_store)"
    and "calcularLibrasDisponibles s' 1 None = Inr (30 + 40)"
    using a st by auto
  then show ?thesis using a st by (simp add: ex_store_def)
qed

section \<open>Status change: stamping\<close>

lemma find_map_key:
  assumes "\<And>x. key (g x) = key x"
  shows "find (\<lambda>x. key x = j) (map (\<lambda>x. if key x = k then g x else x) xs)
         = (if j = k then map_option g (find (\<lambda>x. key x = j) xs)
            else find (\<lambda>x. key x = j) xs)"
  using assms by (induction xs) auto

lemma r_id_stampStatus: "r_id (stampStatus st t r) = r_id r"
  by (simp add: stampStatus_def)

lemma findReserva_stamp:
  "findReserva (updateRow k (stampStatus st t) s) j
     = (if j = k then map_option (stampStatus st t) (findReserva s j) else findReserva s j)"
  unfolding findReserva_def updateRow_def
  using find_map_key[of r_id "stampStatus st t" j k "reservas s"]
  by (simp add: r_id_stampStatus)

lemma allowed_cases:
  assumes "allowed (canChangeReservaStatus role cur new)"
  shows "(cur = PENDIENTE \<and> (new = CONFIRMADA \<or> new = CANCELADA))
       \<or> (cur = CONFIRMADA \<and> (new = ENVIADA \<or> new = CANCELADA))
       \<or> (cur = ENVIADA \<and> (new = ENTREGADA \<or> new = CANCELADA))"
  using assms
  by (cases role; cases cur; cases new)
     (simp_all add: canChangeReservaStatus_def includes_opt_def)

lemma updateReservaStatus_Inr:
  assumes "updateReservaStatus t role k st s = Inr s'"
  shows "\<exists>r. findReserva s k = Some r
           \<and> allowed (canChangeReservaStatus role (r_status r) st)
           \<and> s' = updateRow k (stampStatus st t) s"
  using assms
  by (auto simp: updateReservaStatus_def Let_def split: option.splits if_splits)

lemma sellada_step:
  assumes "sellada st r1 r2" "allowed (canChangeReservaStatus role (r_status r2) new)"
  shows "sellada st r1 (stampStatus new t r2)"
  using assms(1) allowed_cases[OF assms(2)]
  by (auto simp: sellada_def stampStatus_def)

lemma run_status_sellada:
  assumes "findReserva s k = Some r2" "sellada st r1 r2"
  shows "\<exists>r3. findReserva (run_status ops s) k = Some r3 \<and> sellada st r1 r3"
  using assms
proof (induction ops arbitrary: s r2)
  case Nil
  then show ?case by simp
next
  case (Cons op ops)
  obtain t role j new where op: "op = (t, role, j, new)" by (cases op)
  show ?case
  proof (cases "updateReservaStatus t role j new s")
    case (Inl e)
    then show ?thesis using Cons op by simp
  next
    case (Inr s')
    from updateReservaStatus_Inr[OF Inr] obtain r where
      r: "findReserva s j = Some r"
      and al: "allowed (canChangeReservaStatus role (r_status r) new)"
      and s': "s' = updateRow j (stampStatus new t) s" by blast
    show ?thesis
    proof (cases "j = k")
      case True
      then have "r = r2" using r Cons.prems(1) by simp
      then have "sellada st r1 (stampStatus new t r2)"
        using sellada_step[OF Cons.prems(2)] al by simp
      moreover have "findReserva s' k = Some (stampStatus new t r2)"
        using True Cons.prems(1) by (simp add: s' findReserva_stamp)
      ultimately show ?thesis using Cons.IH op Inr by simp
    next
      case False
      then have "findReserva s' k = Some r2"
        using Cons.prems(1) by (simp add: s' findReserva_stamp)
      then show ?thesis using Cons.IH[OF _ Cons.prems(2)] op Inr by simp
    qed
  qed
qed

lemma ex_findReserva4: "findReserva ex_store 4 = Some ex_reserva4"
  by (simp add: findReserva_def ex_store_def ex_reservas_defs)

lemma ex_confirmar:
  "updateReservaStatus 11 ADMIN_PRINCIPAL 4 CONFIRMADA ex_store
     = Inr (updateRow 4 (stampStatus CONFIRMADA 11) ex_store)"
  by (simp add: updateReservaStatus_def ex_findReserva4 canChangeReservaStatus_def
      includes_opt_def ex_reserva4_def)

text \<open>
  The status route taken alone. An accepted status change of a reservation \<open>r\<close> on
  day \<open>hoy\<close> sets the status and stamps the one date field of the destination
  (CONFIRMADA \<open>fechaConfirmacion\<close>, ENVIADA \<open>fechaEnvio\<close>, ENTREGADA
  \<open>fechaEntrega\<close>, CANCELADA none); every other field of the reservation, every other
  reservation and every other table stay as they were. As long as the requests that
  follow are all calls of \<open>updateReservaStatus\<close>, the stamped date is not overwritten.
\<close>

lemma updateReservaStatus_stamps_once:
  assumes found: "findReserva s reservaId = Some r"
    and ok: "updateReservaStatus hoy userRole reservaId status s = Inr s1"
  shows "findReserva s1 reservaId =
           Some (if status = CONFIRMADA then
                   r\<lparr>r_status := CONFIRMADA, r_fechaConfirmacion := Some hoy\<rparr>
                 else if status = ENVIADA then
                   r\<lparr>r_status := ENVIADA, r_fechaEnvio := Some hoy\<rparr>
                 else if status = ENTREGADA then
                   r\<lparr>r_status := ENTREGADA, r_fechaEntrega := Some hoy\<rparr>
                 else r\<lparr>r_status := CANCELADA\<rparr>)
    \<and> (\<forall>j. j \<noteq> reservaId \<longrightarrow> findReserva s1 j = findReserva s j)
    \<and> s1\<lparr>reservas := reservas s\<rparr> = s
    \<and> (\<forall>ops. \<exists>r2. findReserva (run_status ops s1) reservaId = Some r2
          \<and> (status = CONFIRMADA \<longrightarrow> r_fechaConfirmacion r2 = Some hoy)
          \<and> (status = ENVIADA \<longrightarrow>
               r_fechaEnvio r2 = Some hoy \<and> r_fechaConfirmacion r2 = r_fechaConfirmacion r)
          \<and> (status = ENTREGADA \<longrightarrow>
               r2 = r\<lparr>r_status := ENTREGADA, r_fechaEntrega := Some hoy\<rparr>)
          \<and> (status = CANCELADA \<longrightarrow> r2 = r\<lparr>r_status := CANCELADA\<rparr>))"
proof -
  from updateReservaStatus_Inr[OF ok] found
  have al: "allowed (canChangeReservaStatus userRole (r_status r) status)"
    and s1: "s1 = updateRow reservaId (stampStatus status hoy) s" by auto
  have st: "status \<noteq> PENDIENTE" using allowed_cases[OF al] by auto
  let ?r1 = "stampStatus status hoy r"
  have f1: "findReserva s1 reservaId = Some ?r1"
    using found by (simp add: s1 findReserva_stamp)
  have others: "\<forall>j. j \<noteq> reservaId \<longrightarrow> findReserva s1 j = findReserva s j"
    by (simp add: s1 findReserva_stamp)
  have frame: "s1\<lparr>reservas := reservas s\<rparr> = s" by (simp add: s1 updateRow_def)
  have sel: "sellada status ?r1 ?r1"
    using st by (cases status) (simp_all add: sellada_def stampStatus_def)
  have run: "\<exists>r2. findReserva (run_status ops s1) reservaId = Some r2 \<and> sellada status ?r1 r2" for ops
    using run_status_sellada[OF f1 sel] .
  have later: "\<exists>r2. findReserva (run_status ops s1) reservaId = Some r2
          \<and> (status = CONFIRMADA \<longrightarrow> r_fechaConfirmacion r2 = Some hoy)
          \<and> (status = ENVIADA \<longrightarrow>
               r_fechaEnvio r2 = Some hoy \<and> r_fechaConfirmacion r2 = r_fechaConfirmacion r)
          \<and> (status = ENTREGADA \<longrightarrow>
               r2 = r\<lparr>r_status := ENTREGADA, r_fechaEntrega := Some hoy\<rparr>)
          \<and> (status = CANCELADA \<longrightarrow> r2 = r\<lparr>r_status := CANCELADA\<rparr>)" for ops
  proof -
    from run[of ops] obtain r2 where
      a: "findReserva (run_status ops s1) reservaId = Some r2" and b: "sellada status ?r1 r2" by blast
    from b have "(status = CONFIRMADA \<longrightarrow> r_fechaConfirmacion r2 = Some hoy)
          \<and> (status = ENVIADA \<longrightarrow>
               r_fechaEnvio r2 = Some hoy \<and> r_fechaConfirmacion r2 = r_fechaConfirmacion r)
          \<and> (status = ENTREGADA \<longrightarrow>
               r2 = r\<lparr>r_status := ENTREGADA, r_fechaEntrega := Some hoy\<rparr>)
          \<and> (status = CANCELADA \<longrightarrow> r2 = r\<lparr>r_status := CANCELADA\<rparr>)"
      by (cases status) (auto simp: sellada_def stampStatus_def)
    with a show ?thesis by blast
  qed
  have first: "?r1 = (if status = CONFIRMADA then
                   r\<lparr>r_status := CONFIRMADA, r_fechaConfirmacion := Some hoy\<rparr>
                 else if status = ENVIADA then
                   r\<lparr>r_status := ENVIADA, r_fechaEnvio := Some hoy\<rparr>
                 else if status = ENTREGADA then
                   r\<lparr>r_status := ENTREGADA, r_fechaEntrega := Some hoy\<rparr>
                 else r\<lparr>r_status := CANCELADA\<rparr>)"
    using st by (cases status) (simp_all add: stampStatus_def)
  show ?thesis
    using f1 first others frame later by simp
qed


lemma updateReservaStatus_stamps_once_ejemplo:
  "(case updateReservaStatus 11 ADMIN_PRINCIPAL 4 CONFIRMADA ex_store of
      Inl e \<Rightarrow> False
    | Inr s1 \<Rightarrow>
        findReserva s1 4
          = Some (ex_reserva4\<lparr>r_status := CONFIRMADA, r_fechaConfirmacion := Some 11\<rparr>)
        \<and> findReserva
            (run_status [(12, USUARIO, 4, ENVIADA), (13, ADMIN_PRINCIPAL, 4, CONFIRMADA),
                         (14, ADMIN_PRINCIPAL, 4, ENTREGADA)] s1) 4
          = Some (ex_reserva4\<lparr>r_status := ENTREGADA, r_fechaConfirmacion := Some 11,
                               r_fechaEnvio := Some 12, r_fechaEntrega := Some 14\<rparr>))"
proof -
  let ?s1 = "updateRow 4 (stampStatus CONFIRMADA 11) ex_store"
  let ?ops = "[(12, USUARIO, 4, ENVIADA), (13, ADMIN_PRINCIPAL, 4, CONFIRMADA),
               (14, ADMIN_PRINCIPAL, 4, ENTREGADA)]"
  have a: "findReserva ?s1 4
          = Some (ex_reserva4\<lparr>r_status := CONFIRMADA, r_fechaConfirmacion := Some 11\<rparr>)"
    using updateReservaStatus_stamps_once[OF ex_findReserva4 ex_confirmar] by simp
  have b: "findReserva (run_status ?ops ?s1) 4
          = Some (ex_reserva4\<lparr>r_status := ENTREGADA, r_fechaConfirmacion := Some 11,
                               r_fechaEnvio := Some 12, r_fechaEntrega := Some 14\<rparr>)"
    by (simp add: updateReservaStatus_def findReserva_def updateRow_def stampStatus_def
        canChangeReservaStatus_def includes_opt_def ex_store_def ex_reservas_defs)
  show ?thesis using a b by (simp add: ex_confirmar)
qed

section \<open>Allocation: the date of each chunk\<close>

lemma planificar_fechas:
  assumes "list_all (\<lambda>e. P (pl_periodo e) \<and> pl_fecha e = p_fechaEnvio (pl_periodo e)) plan"
    and "list_all (\<lambda>c. P (fst c)) cands"
  shows "list_all (\<lambda>e. P (pl_periodo e) \<and> pl_fecha e = p_fechaEnvio (pl_periodo e))
           (snd (planificar fr cands w plan))"
  using assms
proof (induction cands arbitrary: w plan)
  case Nil
  then show ?case by simp
next
  case (Cons c cands)
  have c: "P (fst c)" and rest: "list_all (\<lambda>c. P (fst c)) cands"
    using Cons.prems(2) by simp_all
  let ?e = "\<lparr>pl_periodo = fst c, pl_libras = min w (disponibles c),
             pl_fecha = (if plan = [] \<and> fr = p_fechaEnvio (fst c) then fr
                         else p_fechaEnvio (fst c))\<rparr>"
  have "list_all (\<lambda>e. P (pl_periodo e) \<and> pl_fecha e = p_fechaEnvio (pl_periodo e)) (plan @ [?e])"
    using Cons.prems(1) c by simp
  from Cons.IH[OF this rest] Cons.IH[OF Cons.prems(1) rest] Cons.prems(1)
  show ?case by (simp add: planificar_Cons del: planificar.simps)
qed

lemma crearReservas_filas:
  "map (\<lambda>r. (r_fecha r, r_periodoId r)) (fst (crearReservas uid e ob i plan acc s))
     = map (\<lambda>r. (r_fecha r, r_periodoId r)) acc
       @ map (\<lambda>e. (pl_fecha e, p_id (pl_periodo e))) plan"
  by (induction plan arbitrary: i acc s) (simp_all add: Let_def nuevaReserva_def)

lemma buscarPeriodos_activos:
  assumes "buscarPeriodos s pid f = Inr cands"
  shows "list_all (\<lambda>c. fst c \<in> set (periodos s) \<and> p_isActive (fst c)) cands"
proof -
  have many: "list_all (\<lambda>c. fst c \<in> set (periodos s) \<and> p_isActive (fst c))
                (findManyActivos s f)"
    by (simp add: findManyActivos_def list_all_iff conReservas_def)
  show ?thesis
  proof (cases pid)
    case None
    then show ?thesis using assms many by (simp add: buscarPeriodos_def)
  next
    case (Some k)
    show ?thesis
    proof (cases "k = 0")
      case True
      then show ?thesis using assms many Some by (simp add: buscarPeriodos_def)
    next
      case False
      then obtain p where "find (\<lambda>p. p_id p = k \<and> p_isActive p) (periodos s) = Some p"
        and "cands = [conReservas s p]"
        using assms Some by (auto simp: buscarPeriodos_def split: option.splits)
      then show ?thesis
        using find_Some_mem[of "\<lambda>p. p_id p = k \<and> p_isActive p" "periodos s" p]
        by (simp add: conReservas_def)
    qed
  qed
qed

lemma ex_lleno_candidatos:
  "map (\<lambda>c. (p_id (fst c), p_fechaEnvio (fst c), disponibles c)) (findManyActivos ex_lleno 10)
     = [(1, 10, 0), (2, 20, 50), (3, 30, 50)]"
  by (simp add: findManyActivos_def conReservas_def disponibles_def reservasNoCanceladas_def
      sumLibras_def ex_lleno_def)

text \<open>
  C9, as the specification states it, does not hold when the first candidate period has
  no room. The request is for day 10; the first candidate period is sent on day 10 and
  is full; the first allocated chunk goes to the second candidate and is dated to that
  period's send date, day 20, not to the requested day.
\<close>

theorem createReserva_primer_candidato_lleno:
  "c_fecha ex_pedido60 = 10
   \<and> map (\<lambda>c. (p_id (fst c), p_fechaEnvio (fst c), disponibles c)) (findManyActivos ex_lleno 10)
       = [(1, 10, 0), (2, 20, 50), (3, 30, 50)]
   \<and> (case createReserva (Some ex_usuario7) ex_pedido60 ex_lleno of
        Inl e \<Rightarrow> False
      | Inr (creadas, s') \<Rightarrow>
          map (\<lambda>r. (r_periodoId r, r_libras r, r_fecha r)) creadas = [(2, 50, 20), (3, 10, 30)])"
proof -
  have p60: "parseDecimal 60 = 60" by code_simp
  have s3: "string_of_nat (Suc (Suc 0)) = ''2''" by (simp add: string_of_nat.simps)
  have "(case createReserva (Some ex_usuario7) ex_pedido60 ex_lleno of
        Inl e \<Rightarrow> False
      | Inr (creadas, s') \<Rightarrow>
          map (\<lambda>r. (r_periodoId r, r_libras r, r_fecha r)) creadas = [(2, 50, 20), (3, 10, 30)])"
    by (simp add: createReserva_def buscarPeriodos_def findManyActivos_def conReservas_def
        reservasNoCanceladas_def sumLibras_def ex_lleno_def ex_pedido60_def p60 Let_def
        nuevaReserva_def ex_usuario7_def)
  then show ?thesis using ex_lleno_candidatos by (simp add: ex_pedido60_def)
qed

text \<open>
  C9, amended. Every created chunk, the first included, is dated to the send date of the
  active period it is allocated in; so the first chunk carries the requested date
  exactly when the requested date is the send date of the period that receives this
  chunk, which need not be the first candidate period.
\<close>

theorem createReserva_fechas:
  assumes "createReserva user body s = Inr (creadas, s')"
  shows "\<exists>ps. list_all2
                (\<lambda>r p. p \<in> set (periodos s) \<and> p_isActive p
                        \<and> r_periodoId r = p_id p \<and> r_fecha r = p_fechaEnvio p)
                creadas ps
             \<and> (creadas \<noteq> [] \<longrightarrow>
                  (r_fecha (hd creadas) = c_fecha body) = (p_fechaEnvio (hd ps) = c_fecha body))"
proof -
  have "\<exists>uid cands rest plan.
       buscarPeriodos s (c_periodoId body) (c_fecha body) = Inr cands
       \<and> planificar (c_fecha body) cands (parseDecimal (c_libras body)) [] = (rest, plan)
       \<and> crearReservas uid (c_estado body) (c_observaciones body) 0 plan [] s
               = (creadas, s')"
    using assms
    by (auto simp: createReserva_def Let_def split: option.splits sum.splits if_splits prod.splits)
  then obtain uid cands rest plan where
    cands: "buscarPeriodos s (c_periodoId body) (c_fecha body) = Inr cands"
    and plan: "planificar (c_fecha body) cands (parseDecimal (c_libras body)) [] = (rest, plan)"
    and cr: "crearReservas uid (c_estado body) (c_observaciones body) 0 plan [] s
               = (creadas, s')"
    by blast
  let ?P = "\<lambda>p. p \<in> set (periodos s) \<and> p_isActive p"
  have "list_all (\<lambda>e. ?P (pl_periodo e) \<and> pl_fecha e = p_fechaEnvio (pl_periodo e))
          (snd (planificar (c_fecha body) cands (parseDecimal (c_libras body)) []))"
    using planificar_fechas[of ?P "[]" cands] buscarPeriodos_activos[OF cands] by simp
  then have pl: "list_all (\<lambda>e. ?P (pl_periodo e) \<and> pl_fecha e = p_fechaEnvio (pl_periodo e)) plan"
    by (simp add: plan)
  have filas: "map (\<lambda>r. (r_fecha r, r_periodoId r)) creadas
                 = map (\<lambda>e. (pl_fecha e, p_id (pl_periodo e))) plan"
    using crearReservas_filas[of uid "c_estado body" "c_observaciones body" 0 plan "[]" s]
    by (simp add: cr)
  have len: "length creadas = length plan"
    using filas by (metis length_map)
  have nth: "r_fecha (creadas ! i) = pl_fecha (plan ! i)
             \<and> r_periodoId (creadas ! i) = p_id (pl_periodo (plan ! i))" if "i < length plan" for i
  proof -
    have "map (\<lambda>r. (r_fecha r, r_periodoId r)) creadas ! i
            = map (\<lambda>e. (pl_fecha e, p_id (pl_periodo e))) plan ! i"
      using filas by simp
    then show ?thesis using that len by simp
  qed
  have l2: "list_all2
                (\<lambda>r p. p \<in> set (periodos s) \<and> p_isActive p
                        \<and> r_periodoId r = p_id p \<and> r_fecha r = p_fechaEnvio p)
                creadas (map pl_periodo plan)"
    using len nth pl by (auto simp: list_all2_conv_all_nth list_all_length)
  have hd: "r_fecha (hd creadas) = p_fechaEnvio (hd (map pl_periodo plan))" if "creadas \<noteq> []"
  proof -
    have "0 < length plan" using that len by (cases creadas) auto
    then show ?thesis
      using nth[of 0] pl that len by (simp add: hd_conv_nth list_all_length)
  qed
  show ?thesis
    using l2 hd by (intro exI[of _ "map pl_periodo plan"]) auto
qed

theorem createReserva_fechas_witness:
  "(case createReserva (Some ex_usuario7) ex_pedido60 ex_store of
      Inl e \<Rightarrow> False
    | Inr (creadas, s') \<Rightarrow>
        map (\<lambda>r. (r_periodoId r, r_fecha r)) creadas = [(1, 10), (2, 20)]
        \<and> (\<exists>ps. list_all2
                    (\<lambda>r p. p \<in> set (periodos ex_store) \<and> p_isActive p
                            \<and> r_periodoId r = p_id p \<and> r_fecha r = p_fechaEnvio p)
                    creadas ps))"
proof -
  have p60: "parseDecimal 60 = 60" by code_simp
  have "(case createReserva (Some ex_usuario7) ex_pedido60 ex_store of
        Inl e \<Rightarrow> False
      | Inr (creadas, s') \<Rightarrow>
          map (\<lambda>r. (r_periodoId r, r_fecha r)) creadas = [(1, 10), (2, 20)])"
    by (simp add: createReserva_def buscarPeriodos_def findManyActivos_def conReservas_def
        reservasNoCanceladas_def sumLibras_def ex_store_def ex_pedido60_def p60 Let_def
        nuevaReserva_def ex_usuario7_def ex_periodo1_def ex_periodo2_def
        ex_reserva1_def ex_reserva2_def ex_reserva3_def ex_reserva4_def)
  then obtain creadas s' where
    eq: "createReserva (Some ex_usuario7) ex_pedido60 ex_store = Inr (creadas, s')"
    and m: "map (\<lambda>r. (r_periodoId r, r_fecha r)) creadas = [(1, 10), (2, 20)]"
    by (auto split: sum.splits prod.splits)
  from createReserva_fechas[OF eq]
  have "\<exists>ps. list_all2
                    (\<lambda>r p. p \<in> set (periodos ex_store) \<and> p_isActive p
                            \<and> r_periodoId r = p_id p \<and> r_fecha r = p_fechaEnvio p)
                    creadas ps"
    by blast
  then show ?thesis using eq m by simp
qed


section \<open>The capacity invariant: the operations that keep it\<close>

text \<open>
  Period and reservation ids are primary keys, hence distinct. Under that reading the
  allocation, the capacity update of a period and the edit of a reservation that does
  not touch its status keep \<open>capacidad_ok\<close>; the status route rejects every
  request on a terminal reservation.
\<close>

lemma crearReservas_store:
  "\<exists>rows. reservas (snd (crearReservas uid e ob i plan acc s)) = reservas s @ rows
        \<and> periodos (snd (crearReservas uid e ob i plan acc s)) = periodos s
        \<and> map (\<lambda>r. (r_periodoId r, r_status r, r_libras r)) rows
            = map (\<lambda>e. (p_id (pl_periodo e), PENDIENTE, pl_libras e)) plan"
proof (induction plan arbitrary: i acc s)
  case Nil
  then show ?case by simp
next
  case (Cons a plan)
  let ?r = "nuevaReserva (nextReservaId s) (pl_libras a) (pl_fecha a) e
              (if i = 0 then obs_or_null ob
               else Some (''Reserva dividida - Parte '' @ string_of_nat (i + 1)
                          @ ''. '' @ obs_or_empty ob))
              uid (p_id (pl_periodo a))"
  let ?s = "s\<lparr>reservas := reservas s @ [?r], nextReservaId := Suc (nextReservaId s)\<rparr>"
  from Cons[of "i + 1" "acc @ [?r]" ?s] obtain rows where
    r: "reservas (snd (crearReservas uid e ob (i + 1) plan (acc @ [?r]) ?s)) = reservas ?s @ rows"
    and p: "periodos (snd (crearReservas uid e ob (i + 1) plan (acc @ [?r]) ?s)) = periodos ?s"
    and m: "map (\<lambda>r. (r_periodoId r, r_status r, r_libras r)) rows
            = map (\<lambda>e. (p_id (pl_periodo e), PENDIENTE, pl_libras e)) plan"
    by blast
  show ?case
    using r p m by (intro exI[of _ "?r # rows"]) (simp add: Let_def nuevaReserva_def)
qed

lemma filas_suma:
  assumes "map (\<lambda>r. (r_periodoId r, r_status r, r_libras r)) rows
            = map (\<lambda>e. (p_id (pl_periodo e), PENDIENTE, pl_libras e)) plan"
  shows "sum_list (map r_libras
           (filter (\<lambda>r. r_periodoId r = k \<and> r_status r \<noteq> CANCELADA) rows))
         = sum_list (map pl_libras (filter (\<lambda>e. p_id (pl_periodo e) = k) plan))"
  using assms
proof (induction rows arbitrary: plan)
  case Nil
  then show ?case by simp
next
  case (Cons r rows)
  then obtain a plan' where "plan = a # plan'" by (cases plan) auto
  with Cons show ?case by auto
qed

lemma planificar_cota:
  "sum_list (map pl_libras
      (filter (\<lambda>e. p_id (pl_periodo e) = k) (snd (planificar fr cands w plan))))
   \<le> sum_list (map pl_libras (filter (\<lambda>e. p_id (pl_periodo e) = k) plan))
     + sum_list (map (\<lambda>c. max 0 (disponibles c)) (filter (\<lambda>c. p_id (fst c) = k) cands))"
proof (induction cands arbitrary: w plan)
  case Nil
  then show ?case by simp
next
  case (Cons c cands)
  define e where "e = \<lparr>pl_periodo = fst c, pl_libras = min w (disponibles c),
             pl_fecha = (if plan = [] \<and> fr = p_fechaEnvio (fst c) then fr
                         else p_fechaEnvio (fst c))\<rparr>"
  have e: "pl_periodo e = fst c" "pl_libras e = min w (disponibles c)"
    by (simp_all add: e_def)
  have nn: "0 \<le> sum_list (map (\<lambda>c. max 0 (disponibles c)) (filter (\<lambda>c. p_id (fst c) = k) cs))"
    for cs by (induction cs) simp_all
  consider (stop) "w \<le> 0"
    | (take) "\<not> w \<le> 0" "0 < disponibles c \<and> 1 / 100 \<le> min w (disponibles c)"
    | (skip) "\<not> w \<le> 0" "\<not> (0 < disponibles c \<and> 1 / 100 \<le> min w (disponibles c))"
    by blast
  then show ?case
  proof cases
    case stop
    then have "planificar fr (c # cands) w plan = (w, plan)"
      by (simp only: planificar_Cons if_True simp_thms)
    then show ?thesis using nn[of "c # cands"] by simp
  next
    case take
    then have step: "planificar fr (c # cands) w plan
                 = planificar fr cands (w - min w (disponibles c)) (plan @ [e])"
      unfolding e_def by (simp only: planificar_Cons if_True if_False simp_thms)
    have "min w (disponibles c) \<le> max 0 (disponibles c)" by simp
    with Cons[of "w - min w (disponibles c)" "plan @ [e]"]
    show ?thesis unfolding step by (cases "p_id (fst c) = k") (simp_all add: e)
  next
    case skip
    then have step: "planificar fr (c # cands) w plan = planificar fr cands w plan"
      by (simp only: planificar_Cons if_False simp_thms)
    define x where "x = (if p_id (fst c) = k then max 0 (disponibles c) else 0)"
    have x: "0 \<le> x" by (simp add: x_def)
    have "sum_list (map (\<lambda>c. max 0 (disponibles c)) (filter (\<lambda>c. p_id (fst c) = k) (c # cands)))
          = x + sum_list (map (\<lambda>c. max 0 (disponibles c)) (filter (\<lambda>c. p_id (fst c) = k) cands))"
      by (simp add: x_def)
    with Cons[of w plan] x show ?thesis unfolding step by linarith
  qed
qed

lemma distinct_all_eq: "distinct xs \<Longrightarrow> (\<forall>x \<in> set xs. x = a) \<Longrightarrow> xs = [] \<or> xs = [a]"
proof (induction xs)
  case Nil
  then show ?case by simp
next
  case (Cons x xs)
  then have "xs = [] \<or> xs = [a]" by simp
  moreover have "x = a" using Cons.prems by simp
  moreover have "x \<notin> set xs" using Cons.prems by simp
  ultimately show ?case by auto
qed

lemma candidatos_de_un_periodo:
  assumes ids: "distinct (map p_id (periodos s))"
    and sub: "set ps \<subseteq> set (periodos s)" and dist: "distinct ps"
    and q: "q \<in> set (periodos s)"
  shows "sum_list (map (\<lambda>c. max 0 (disponibles c))
            (filter (\<lambda>c. p_id (fst c) = p_id q) (map (conReservas s) ps)))
         \<le> max 0 (disponibles (conReservas s q))"
proof -
  have inj: "inj_on p_id (set (periodos s))" using ids by (simp add: distinct_map)
  have "\<forall>p \<in> set (filter (\<lambda>p. p_id p = p_id q) ps). p = q"
    using inj sub q by (auto dest: inj_onD)
  moreover have "distinct (filter (\<lambda>p. p_id p = p_id q) ps)" using dist by simp
  ultimately have "filter (\<lambda>p. p_id p = p_id q) ps = [] \<or> filter (\<lambda>p. p_id p = p_id q) ps = [q]"
    by (rule distinct_all_eq[rotated])
  moreover have "filter (\<lambda>c. p_id (fst c) = p_id q) (map (conReservas s) ps)
        = map (conReservas s) (filter (\<lambda>p. p_id p = p_id q) ps)"
    by (simp add: filter_map comp_def conReservas_def)
  ultimately show ?thesis by auto
qed

lemma buscarPeriodos_distintos:
  assumes "buscarPeriodos s pid f = Inr cands" "distinct (map p_id (periodos s))"
  shows "\<exists>ps. cands = map (conReservas s) ps \<and> set ps \<subseteq> set (periodos s) \<and> distinct ps"
proof -
  have d: "distinct (periodos s)" using assms(2) by (simp add: distinct_map)
  have many: "\<exists>ps. findManyActivos s f = map (conReservas s) ps
                \<and> set ps \<subseteq> set (periodos s) \<and> distinct ps"
    unfolding findManyActivos_def
    by (rule exI[of _ "sort_key p_fechaEnvio
          (filter (\<lambda>p. p_isActive p \<and> f \<le> p_fechaEnvio p) (periodos s))"])
       (auto simp: d)
  show ?thesis
  proof (cases pid)
    case None
    then show ?thesis using assms(1) many by (simp add: buscarPeriodos_def)
  next
    case (Some k)
    show ?thesis
    proof (cases "k = 0")
      case True
      then show ?thesis using assms(1) many Some by (simp add: buscarPeriodos_def)
    next
      case False
      then obtain p where "find (\<lambda>p. p_id p = k \<and> p_isActive p) (periodos s) = Some p"
        and "cands = [conReservas s p]"
        using assms(1) Some by (auto simp: buscarPeriodos_def split: option.splits)
      then show ?thesis
        using find_Some_mem[of "\<lambda>p. p_id p = k \<and> p_isActive p" "periodos s" p]
        by (intro exI[of _ "[p]"]) simp
    qed
  qed
qed

lemma createReserva_capacidad_ok:
  assumes inv: "capacidad_ok s" and ids: "distinct (map p_id (periodos s))"
    and ok: "createReserva user body s = Inr (creadas, s')"
  shows "capacidad_ok s'"
proof -
  have "\<exists>uid cands rest plan.
       buscarPeriodos s (c_periodoId body) (c_fecha body) = Inr cands
       \<and> planificar (c_fecha body) cands (parseDecimal (c_libras body)) [] = (rest, plan)
       \<and> crearReservas uid (c_estado body) (c_observaciones body) 0 plan [] s
               = (creadas, s')"
    using ok
    by (auto simp: createReserva_def Let_def split: option.splits sum.splits if_splits prod.splits)
  then obtain uid cands rest plan where
    cands: "buscarPeriodos s (c_periodoId body) (c_fecha body) = Inr cands"
    and plan: "planificar (c_fecha body) cands (parseDecimal (c_libras body)) [] = (rest, plan)"
    and cr: "crearReservas uid (c_estado body) (c_observaciones body) 0 plan [] s
               = (creadas, s')"
    by blast
  from crearReservas_store[of uid "c_estado body" "c_observaciones body" 0 plan "[]" s]
  obtain rows where rs: "reservas s' = reservas s @ rows" and ps: "periodos s' = periodos s"
    and m: "map (\<lambda>r. (r_periodoId r, r_status r, r_libras r)) rows
            = map (\<lambda>e. (p_id (pl_periodo e), PENDIENTE, pl_libras e)) plan"
    by (auto simp: cr)
  from buscarPeriodos_distintos[OF cands ids] obtain cs where
    cs: "cands = map (conReservas s) cs" "set cs \<subseteq> set (periodos s)" "distinct cs" by blast
  have suma: "sumLibras (reservasNoCanceladas s' k)
      = sumLibras (reservasNoCanceladas s k)
        + sum_list (map pl_libras (filter (\<lambda>e. p_id (pl_periodo e) = k) plan))" for k
    using filas_suma[OF m, of k] by (simp add: reservasNoCanceladas_def rs sumLibras_sum_list)
  have cota: "sum_list (map pl_libras (filter (\<lambda>e. p_id (pl_periodo e) = p_id q) plan))
              \<le> max 0 (disponibles (conReservas s q))" if q: "q \<in> set (periodos s)" for q
  proof -
    have "sum_list (map pl_libras (filter (\<lambda>e. p_id (pl_periodo e) = p_id q) plan))
          \<le> sum_list (map (\<lambda>c. max 0 (disponibles c))
               (filter (\<lambda>c. p_id (fst c) = p_id q) cands))"
      using planificar_cota[of "p_id q" "c_fecha body" cands "parseDecimal (c_libras body)" "[]"]
      by (simp add: plan)
    also have "\<dots> \<le> max 0 (disponibles (conReservas s q))"
      unfolding cs(1) using candidatos_de_un_periodo[OF ids cs(2) cs(3) q] .
    finally show ?thesis .
  qed
  show ?thesis
    unfolding capacidad_ok_def list_all_iff
  proof
    fix q assume "q \<in> set (periodos s')"
    then have q: "q \<in> set (periodos s)" by (simp add: ps)
    have old: "sumLibras (reservasNoCanceladas s (p_id q)) \<le> of_int (p_librasTotales q)"
      using inv q by (auto simp: capacidad_ok_def list_all_iff)
    have "disponibles (conReservas s q)
            = of_int (p_librasTotales q) - sumLibras (reservasNoCanceladas s (p_id q))"
      by (simp add: disponibles_def conReservas_def)
    then show "sumLibras (reservasNoCanceladas s' (p_id q)) \<le> of_int (p_librasTotales q)"
      using cota[OF q] old by (simp add: suma)
  qed
qed


lemma updatePeriodo_capacidad_ok:
  assumes inv: "capacidad_ok s" and ok: "updatePeriodo periodoId body s = Inr s'"
  shows "capacidad_ok s'"
proof -
  from ok obtain periodo where per: "findPeriodo s periodoId = Some periodo"
    by (auto simp: updatePeriodo_def split: option.splits)
  have pid: "p_id periodo = periodoId" and pmem: "periodo \<in> set (periodos s)"
    using per find_Some_mem[of "\<lambda>p. p_id p = periodoId" "periodos s" periodo]
    by (simp_all add: findPeriodo_def)
  let ?R = "sumLibras (reservasNoCanceladas s periodoId)"
  let ?g = "\<lambda>p. (let p1 = (case up_librasTotales body of
                              None \<Rightarrow> p
                            | Some lt \<Rightarrow> if lt = 0 then p else p\<lparr>p_librasTotales := lt\<rparr>)
                   in (case up_fechaEnvio body of
                         None \<Rightarrow> p1
                       | Some f \<Rightarrow> p1\<lparr>p_fechaEnvio := f\<rparr>))"
  have guard: "\<not> (case up_librasTotales body of
                  None \<Rightarrow> False
                | Some lt \<Rightarrow> lt < p_librasTotales periodo \<and> of_int lt < ?R)"
    and s': "s' = s\<lparr>periodos := map (\<lambda>p. if p_id p = periodoId then ?g p else p) (periodos s)\<rparr>"
    using ok per pid by (auto simp: updatePeriodo_def Let_def split: if_splits)
  have old: "?R \<le> of_int (p_librasTotales periodo)"
    using inv pmem pid by (auto simp: capacidad_ok_def list_all_iff)
  have gid: "p_id (?g p) = p_id p" for p
    by (simp add: Let_def split: option.splits)
  have same: "reservasNoCanceladas s' k = reservasNoCanceladas s k" for k
    by (simp add: s' reservasNoCanceladas_def)
  have one: "sumLibras (reservasNoCanceladas s (p_id p)) \<le> of_int (p_librasTotales (?g p))"
    if p: "p \<in> set (periodos s)" and k: "p_id p = periodoId" for p
  proof (cases "up_librasTotales body")
    case None
    then show ?thesis using inv p by (auto simp: capacidad_ok_def list_all_iff Let_def split: option.splits)
  next
    case (Some lt)
    show ?thesis
    proof (cases "lt = 0")
      case True
      then show ?thesis
        using inv p Some by (auto simp: capacidad_ok_def list_all_iff Let_def split: option.splits)
    next
      case False
      have "?R \<le> of_int lt"
      proof (cases "lt < p_librasTotales periodo")
        case True
        then show ?thesis using guard Some by simp
      next
        case False
        then have "(of_int (p_librasTotales periodo) :: rat) \<le> of_int lt" by simp
        then show ?thesis using old by linarith
      qed
      then show ?thesis using Some False k by (simp add: Let_def split: option.splits)
    qed
  qed
  show ?thesis
    unfolding capacidad_ok_def list_all_iff
  proof
    fix p' assume "p' \<in> set (periodos s')"
    then obtain p where p: "p \<in> set (periodos s)"
      and p': "p' = (if p_id p = periodoId then ?g p else p)"
      by (auto simp: s')
    show "sumLibras (reservasNoCanceladas s' (p_id p')) \<le> of_int (p_librasTotales p')"
    proof (cases "p_id p = periodoId")
      case True
      then show ?thesis using one[OF p True] p' gid[of p] by (simp add: same)
    next
      case False
      then show ?thesis using inv p p' by (auto simp: capacidad_ok_def list_all_iff same)
    qed
  qed
qed


lemma suma_fila_editada:
  assumes "distinct (map r_id xs)" "r \<in> set xs"
  shows "sum_list (map r_libras (filter Q (map (\<lambda>x. if r_id x = r_id r then g x else x) xs)))
         = sum_list (map r_libras (filter (\<lambda>x. Q x \<and> r_id x \<noteq> r_id r) xs))
           + (if Q (g r) then r_libras (g r) else 0)"
  using assms
proof (induction xs)
  case Nil
  then show ?case by simp
next
  case (Cons x xs)
  have notin: "r_id x \<notin> r_id ` set xs" and d: "distinct (map r_id xs)"
    using Cons.prems(1) by simp_all
  show ?case
  proof (cases "x = r")
    case True
    then have "\<forall>y \<in> set xs. r_id y \<noteq> r_id r" using notin by (metis imageI)
    then have "map (\<lambda>x. if r_id x = r_id r then g x else x) xs = xs"
      and "filter (\<lambda>x. Q x \<and> r_id x \<noteq> r_id r) xs = filter Q xs"
      by (simp_all add: map_idI cong: filter_cong)
    then show ?thesis using True by simp
  next
    case False
    then have mem: "r \<in> set xs" using Cons.prems(2) by simp
    then have "r_id x \<noteq> r_id r" using notin by (metis imageI)
    then show ?thesis using Cons.IH[OF d mem] by simp
  qed
qed

lemma suma_sin_fila:
  assumes "distinct (map r_id xs)" "r \<in> set xs"
  shows "sum_list (map r_libras (filter Q xs))
         = sum_list (map r_libras (filter (\<lambda>x. Q x \<and> r_id x \<noteq> r_id r) xs))
           + (if Q r then r_libras r else 0)"
  using suma_fila_editada[OF assms, of Q "\<lambda>x. x"] by (simp add: map_idI)

lemma applyUpdateData_sin_status:
  assumes "ud_status body = None"
  shows "r_id (applyUpdateData nl body r) = r_id r"
    and "r_status (applyUpdateData nl body r) = r_status r"
    and "r_periodoId (applyUpdateData nl body r) = r_periodoId r"
    and "r_libras (applyUpdateData nl body r) = (case nl of None \<Rightarrow> r_libras r | Some l \<Rightarrow> l)"
  using assms by (simp_all add: applyUpdateData_def Let_def split: option.splits)

lemma updateReserva_capacidad_ok:
  assumes inv: "capacidad_ok s"
    and pids: "distinct (map p_id (periodos s))"
    and rids: "distinct (map r_id (reservas s))"
    and rid: "0 < reservaId"
    and nost: "ud_status body = None"
    and ok: "updateReserva user reservaId body s = Inr s'"
  shows "capacidad_ok s'"
proof -
  have "\<exists>r nl. findReserva s reservaId = Some r
           \<and> validarLibras s r (ud_libras body) = Inr nl
           \<and> s' = updateRow reservaId (applyUpdateData nl body) s"
    using ok by (auto simp: updateReserva_def split: option.splits if_splits sum.splits)
  then obtain r nl where r: "findReserva s reservaId = Some r"
    and nl: "validarLibras s r (ud_libras body) = Inr nl"
    and s': "s' = updateRow reservaId (applyUpdateData nl body) s" by blast
  have mem: "r \<in> set (reservas s)" and idr: "r_id r = reservaId"
    using r find_Some_mem[of "\<lambda>x. r_id x = reservaId" "reservas s" r]
    by (simp_all add: findReserva_def)
  let ?g = "applyUpdateData nl body"
  note g = applyUpdateData_sin_status[OF nost, of nl r]
  define excl where "excl k = sum_list (map r_libras
      (filter (\<lambda>x. (r_periodoId x = k \<and> r_status x \<noteq> CANCELADA) \<and> r_id x \<noteq> r_id r)
         (reservas s)))" for k
  have new: "sumLibras (reservasNoCanceladas s' k)
      = excl k + (if r_periodoId r = k \<and> r_status r \<noteq> CANCELADA then r_libras (?g r) else 0)"
    for k
    using suma_fila_editada[OF rids mem, of "\<lambda>x. r_periodoId x = k \<and> r_status x \<noteq> CANCELADA" ?g]
    by (simp add: s' updateRow_def reservasNoCanceladas_def sumLibras_sum_list idr g excl_def)
  have old: "sumLibras (reservasNoCanceladas s k)
      = excl k + (if r_periodoId r = k \<and> r_status r \<noteq> CANCELADA then r_libras r else 0)"
    for k
    using suma_sin_fila[OF rids mem, of "\<lambda>x. r_periodoId x = k \<and> r_status x \<noteq> CANCELADA"]
    by (simp add: reservasNoCanceladas_def sumLibras_sum_list excl_def)
  have inj: "inj_on p_id (set (periodos s))" using pids by (simp add: distinct_map)
  show ?thesis
    unfolding capacidad_ok_def list_all_iff
  proof
    fix q assume "q \<in> set (periodos s')"
    then have q: "q \<in> set (periodos s)" by (simp add: s' updateRow_def)
    have invq: "sumLibras (reservasNoCanceladas s (p_id q)) \<le> of_int (p_librasTotales q)"
      using inv q by (auto simp: capacidad_ok_def list_all_iff)
    show "sumLibras (reservasNoCanceladas s' (p_id q)) \<le> of_int (p_librasTotales q)"
    proof (cases nl)
      case None
      then have "r_libras (?g r) = r_libras r" using g(4) by simp
      then show ?thesis using invq by (auto simp: new old split: if_splits)
    next
      case (Some l)
      show ?thesis
      proof (cases "r_periodoId r = p_id q \<and> r_status r \<noteq> CANCELADA")
        case False
        then show ?thesis using invq by (auto simp: new old)
      next
        case True
        have "\<exists>a. calcularLibrasDisponibles s (r_periodoId r) (Some (r_id r)) = Inr a \<and> l \<le> a"
          using nl Some
          by (auto simp: validarLibras_def Let_def split: option.splits sum.splits if_splits)
        then obtain a where a: "calcularLibrasDisponibles s (r_periodoId r) (Some (r_id r)) = Inr a"
          and la: "l \<le> a" by blast
        from a obtain p where p: "findPeriodo s (r_periodoId r) = Some p"
          by (auto simp: calcularLibrasDisponibles_def split: option.splits)
        have "p \<in> set (periodos s)" "p_id p = p_id q"
          using p True find_Some_mem[of "\<lambda>p. p_id p = r_periodoId r" "periodos s" p]
          by (simp_all add: findPeriodo_def)
        then have pq: "p = q" using inj q by (auto dest: inj_onD)
        have "filter (\<lambda>x. r_id x \<noteq> r_id r) (reservasNoCanceladas s (p_id q))
              = filter (\<lambda>x. (r_periodoId x = p_id q \<and> r_status x \<noteq> CANCELADA) \<and> r_id x \<noteq> r_id r)
                  (reservas s)"
          by (simp add: reservasNoCanceladas_def conj_commute)
        then have "a = of_int (p_librasTotales q) - excl (p_id q)"
          using a p pq True rid idr
          by (simp add: calcularLibrasDisponibles_def sumLibras_sum_list excl_def)
        moreover have "r_libras (?g r) = l" using g(4) Some by simp
        ultimately show ?thesis using la True by (simp add: new)
      qed
    qed
  qed
qed


lemma updateReservaStatus_terminal:
  assumes "findReserva s reservaId = Some r"
    and "r_status r = ENTREGADA \<or> r_status r = CANCELADA"
  shows "updateReservaStatus hoy userRole reservaId status s
           = Inl (CannotChangeStatus ''No se puede modificar una reserva entregada o cancelada'')"
  using assms
  by (auto simp: updateReservaStatus_def canChangeReservaStatus_def reason_or_default_def)

section \<open>Editing a reservation: the missing guard\<close>

text \<open>
  C1. \<open>updateReserva\<close> copies a given \<open>status\<close> into the row with no look at the
  current status and no capacity test. In the example state the invariant holds
  (period 1: 70 lb of 100 lb, the cancelled 50 lb not counted); the owner of the
  cancelled reservation 3 sets its status back to PENDIENTE, the call succeeds, and
  period 1 then holds 120 lb of non-cancelled reservations against a total of 100 lb.
\<close>

theorem updateReserva_revives_cancelled:
  "capacidad_ok ex_store
   \<and> (case updateReserva (Some ex_usuario9) 3
            \<lparr>ud_libras = None, ud_estado = None, ud_observaciones = None,
             ud_status = Some PENDIENTE\<rparr> ex_store of
        Inl e \<Rightarrow> False
      | Inr s' \<Rightarrow> \<not> capacidad_ok s'
                  \<and> sumLibras (reservasNoCanceladas s' 1) = 120
                  \<and> findPeriodo s' 1 = Some ex_periodo1)
   \<and> p_librasTotales ex_periodo1 = 100"
  by (simp add: capacidad_ok_def updateReserva_def validarLibras_def findReserva_def
      findPeriodo_def updateRow_def applyUpdateData_def reservasNoCanceladas_def sumLibras_def
      ex_store_def ex_reservas_defs ex_periodo1_def ex_periodo2_def ex_usuario9_def)

text \<open>
  C5. \<open>updateReserva\<close> has no test for a terminal status: the owner of the delivered
  reservation 1 changes its weight, its notes and even its status, and the call
  succeeds. The status route \<open>updateReservaStatus\<close> rejects the same reservation.
\<close>

theorem updateReserva_edits_delivered:
  "findReserva ex_store 1 = Some ex_reserva1
   \<and> r_status ex_reserva1 = ENTREGADA
   \<and> (case updateReserva (Some ex_usuario7) 1
            \<lparr>ud_libras = Some 5, ud_estado = None, ud_observaciones = Some ''cambio'',
             ud_status = Some PENDIENTE\<rparr> ex_store of
        Inl e \<Rightarrow> False
      | Inr s' \<Rightarrow>
          findReserva s' 1
            = Some (ex_reserva1\<lparr>r_libras := 5, r_observaciones := Some ''cambio'',
                                 r_status := PENDIENTE\<rparr>))
   \<and> updateReservaStatus 11 ADMIN_PRINCIPAL 1 CONFIRMADA ex_store
       = Inl (CannotChangeStatus ''No se puede modificar una reserva entregada o cancelada'')"
proof -
  have p5: "parseDecimal 5 = 5" by code_simp
  show ?thesis
    by (simp add: updateReserva_def validarLibras_def calcularLibrasDisponibles_def p5
      findReserva_def findPeriodo_def updateRow_def applyUpdateData_def reservasNoCanceladas_def
      sumLibras_def updateReservaStatus_def canChangeReservaStatus_def reason_or_default_def
      ex_store_def ex_reservas_defs ex_periodo1_def ex_periodo2_def ex_usuario7_def Let_def)
qed

text \<open>
  C8. The stamp does not stay once \<open>updateReserva\<close> is among the calls: it writes any
  status with no look at the current one. Reservation 4 is confirmed on day 11 and
  \<open>fechaConfirmacion\<close> is stamped; its owner sets the status back to PENDIENTE
  through \<open>updateReserva\<close>; the confirmation on day 15 is then an accepted transition
  of \<open>updateReservaStatus\<close>, and it overwrites \<open>fechaConfirmacion\<close> with day 15.
\<close>

theorem updateReserva_reabre_sello:
  "(case updateReservaStatus 11 ADMIN_PRINCIPAL 4 CONFIRMADA ex_store of
      Inl e \<Rightarrow> False
    | Inr s1 \<Rightarrow>
        map_option r_fechaConfirmacion (findReserva s1 4) = Some (Some 11)
        \<and> (case updateReserva (Some ex_usuario7) 4
                  \<lparr>ud_libras = None, ud_estado = None, ud_observaciones = None,
                   ud_status = Some PENDIENTE\<rparr> s1 of
             Inl e \<Rightarrow> False
           | Inr s2 \<Rightarrow>
               map_option r_fechaConfirmacion (findReserva s2 4) = Some (Some 11)
               \<and> map_option r_status (findReserva s2 4) = Some PENDIENTE
               \<and> (case updateReservaStatus 15 ADMIN_PRINCIPAL 4 CONFIRMADA s2 of
                    Inl e \<Rightarrow> False
                  | Inr s3 \<Rightarrow>
                      map_option r_fechaConfirmacion (findReserva s3 4) = Some (Some 15))))"
  by (simp add: updateReservaStatus_def updateReserva_def validarLibras_def findReserva_def
      updateRow_def stampStatus_def applyUpdateData_def canChangeReservaStatus_def
      includes_opt_def ex_store_def ex_reservas_defs ex_usuario7_def)

end
